theory Spec2Isabelle
  imports Main "HOL-Library.Word" "HOL-Library.Multiset"
begin

section \<open>JavaScript strings\<close>

text \<open>
  A JavaScript string is a sequence of UTF-16 code units; a code unit is modelled by its
  numeric value. Literals of the source are written with \<open>js\<close>, which maps every
  character of an ASCII literal to its code.
\<close>

type_synonym jsstring = "nat list"

definition js :: "string \<Rightarrow> jsstring" where
  "js s = map of_char s"

text \<open>
  \<open>String.prototype.trim\<close> removes the code units of WhiteSpace and LineTerminator
  (ECMAScript 12.2, 12.3) from both ends: TAB, LF, VT, FF, CR, SP, NBSP, the space
  separators of the Basic Multilingual Plane, LS, PS and ZWNBSP.
\<close>

definition isWhiteSpace :: "nat \<Rightarrow> bool" where
  "isWhiteSpace c =
     ((9 \<le> c \<and> c \<le> 13) \<or> c = 32 \<or> c = 160 \<or> c = 5760 \<or> (8192 \<le> c \<and> c \<le> 8202)
      \<or> c = 8232 \<or> c = 8233 \<or> c = 8239 \<or> c = 8287 \<or> c = 12288 \<or> c = 65279)"

definition trim :: "jsstring \<Rightarrow> jsstring" where
  "trim s = rev (dropWhile isWhiteSpace (rev (dropWhile isWhiteSpace s)))"

text \<open>The character class \<open>[a-z0-9-]\<close> of the room-name regular expression.\<close>

definition slugChar :: "nat \<Rightarrow> bool" where
  "slugChar c = ((97 \<le> c \<and> c \<le> 122) \<or> (48 \<le> c \<and> c \<le> 57) \<or> c = 45)"

text \<open>\<open>s.replace(/[^a-z0-9-]/g, '')\<close>: every code unit outside the class is deleted.\<close>

definition stripNonSlug :: "jsstring \<Rightarrow> jsstring" where
  "stripNonSlug s = filter slugChar s"

text \<open>
  \<open>String.prototype.toLowerCase\<close> is the Unicode lower-casing of the platform; it is
  not code of the program and is passed to the model as a parameter \<open>lc\<close>. On strings
  of ASCII code units it is \<open>toLowerASCII\<close>.
\<close>

definition toLowerASCII :: "jsstring \<Rightarrow> jsstring" where
  "toLowerASCII s = map (\<lambda>c. if 65 \<le> c \<and> c \<le> 90 then c + 32 else c) s"

text \<open>
  The room name of \<open>handleRoomFormSubmit\<close>:
  \<open>dom.roomInput.value.trim().toLowerCase().replace(/[^a-z0-9-]/g, '')\<close>.
\<close>

definition normalizeRoomName :: "(jsstring \<Rightarrow> jsstring) \<Rightarrow> jsstring \<Rightarrow> jsstring" where
  "normalizeRoomName lc s = stripNonSlug (lc (trim s))"

section \<open>Password digests\<close>

text \<open>
  \<open>hashPassword\<close> encodes the password with \<open>TextEncoder\<close>, digests the bytes with
  \<open>crypto.subtle.digest('SHA-256', _)\<close> and prints every byte of the digest as two
  hexadecimal digits. The encoder and the digest are functions of the platform and are
  parameters of the model, together with the lower-casing of strings.
\<close>

record platform =
  toLowerCase :: "jsstring \<Rightarrow> jsstring"
  encode :: "jsstring \<Rightarrow> 8 word list"
  sha256 :: "8 word list \<Rightarrow> 8 word list"

definition hexDigit :: "nat \<Rightarrow> nat" where
  "hexDigit d = (if d < 10 then 48 + d else 87 + d)"

text \<open>\<open>Number.prototype.toString(16)\<close> on a non-negative integer.\<close>

fun toString16 :: "nat \<Rightarrow> jsstring" where
  "toString16 n = (if n < 16 then [hexDigit n] else toString16 (n div 16) @ [hexDigit (n mod 16)])"

declare toString16.simps [simp del]

definition padStart :: "nat \<Rightarrow> nat \<Rightarrow> jsstring \<Rightarrow> jsstring" where
  "padStart n c s = replicate (n - length s) c @ s"

definition hashPassword :: "platform \<Rightarrow> jsstring \<Rightarrow> jsstring" where
  "hashPassword P password =
     (let data = encode P password;
          hashArray = sha256 P data
      in concat (map (\<lambda>b. padStart 2 48 (toString16 (unat b))) hashArray))"

section \<open>The document store\<close>

text \<open>
  A Firestore \<open>Timestamp\<close> has whole seconds and a nanosecond part. A room document has
  a password digest and a creation time; a participant document, stored under the client
  identity, a display name and a joined-at time; a message document an identifier given
  by the store, the fields \<open>type\<close>, \<open>name\<close>, \<open>text\<close> and \<open>senderId\<close> (\<open>type\<close> is written
  on event messages only, \<open>name\<close> on user messages only) and a timestamp, which a
  snapshot shows as \<open>null\<close> while the server has not assigned it.
\<close>

record Timestamp =
  seconds :: int
  nanoseconds :: int

record roomDoc =
  passwordHash :: jsstring
  createdAt :: Timestamp

record userDoc =
  name :: jsstring
  joined :: Timestamp

record message =
  msgId :: nat
  msgType :: "jsstring option"
  msgName :: "jsstring option"
  msgText :: jsstring
  senderId :: jsstring
  timestamp :: "Timestamp option"

text \<open>
  The store holds the room documents, and for every room the participant documents
  (in the order a query lists them, one per identity) and the message documents.
  \<open>serverTime\<close> is what \<open>serverTimestamp()\<close> resolves to, \<open>nextId\<close> the identifier
  of the next added document. Every call of the store can fail; \<open>faults\<close> scripts
  the calls to come: its head says whether the next call is rejected. Room names are
  taken as single path segments: a fragment with a slash, for which the library rejects
  the document reference before any call, is outside the model.
\<close>

record firestore =
  rooms :: "jsstring \<rightharpoonup> roomDoc"
  users :: "jsstring \<Rightarrow> (jsstring \<times> userDoc) list"
  messages :: "jsstring \<Rightarrow> message list"
  serverTime :: Timestamp
  nextId :: nat
  faults :: "bool list"

datatype firestoreError = Unavailable | NotFound

definition nextFault :: "firestore \<Rightarrow> bool \<times> firestore" where
  "nextFault d = (case faults d of [] \<Rightarrow> (False, d) | f # fs \<Rightarrow> (f, d\<lparr>faults := fs\<rparr>))"

text \<open>\<open>getDoc\<close> and \<open>setDoc\<close> on \<open>chat-rooms/<room>\<close>.\<close>

definition getRoomDoc :: "jsstring \<Rightarrow> firestore \<Rightarrow> (firestoreError + roomDoc option) \<times> firestore" where
  "getRoomDoc room d =
     (case nextFault d of
        (True, d1) \<Rightarrow> (Inl Unavailable, d1)
      | (False, d1) \<Rightarrow> (Inr (rooms d1 room), d1))"

definition setRoomDoc :: "jsstring \<Rightarrow> jsstring \<Rightarrow> firestore \<Rightarrow> (firestoreError + unit) \<times> firestore" where
  "setRoomDoc room ph d =
     (case nextFault d of
        (True, d1) \<Rightarrow> (Inl Unavailable, d1)
      | (False, d1) \<Rightarrow>
          (Inr (), d1\<lparr>rooms := (rooms d1)(room \<mapsto> \<lparr>passwordHash = ph, createdAt = serverTime d1\<rparr>)\<rparr>))"

text \<open>
  \<open>getDocs\<close>, \<open>setDoc\<close>, \<open>updateDoc\<close> and \<open>deleteDoc\<close> on
  \<open>chat-rooms/<room>/users\<close>. \<open>setDoc\<close> replaces the whole document or creates it;
  \<open>updateDoc\<close> changes the given field of an existing document and is rejected when
  there is none.
\<close>

fun putDoc :: "jsstring \<Rightarrow> userDoc \<Rightarrow> (jsstring \<times> userDoc) list \<Rightarrow> (jsstring \<times> userDoc) list" where
  "putDoc k v [] = [(k, v)]"
| "putDoc k v ((k', v') # us) = (if k' = k then (k, v) # us else (k', v') # putDoc k v us)"

definition getUserDocs :: "jsstring \<Rightarrow> firestore \<Rightarrow> (firestoreError + (jsstring \<times> userDoc) list) \<times> firestore" where
  "getUserDocs room d =
     (case nextFault d of
        (True, d1) \<Rightarrow> (Inl Unavailable, d1)
      | (False, d1) \<Rightarrow> (Inr (users d1 room), d1))"

definition setUserDoc :: "jsstring \<Rightarrow> jsstring \<Rightarrow> jsstring \<Rightarrow> firestore \<Rightarrow> (firestoreError + unit) \<times> firestore" where
  "setUserDoc room uid nm d =
     (case nextFault d of
        (True, d1) \<Rightarrow> (Inl Unavailable, d1)
      | (False, d1) \<Rightarrow>
          (Inr (), d1\<lparr>users := (users d1)(room := putDoc uid \<lparr>name = nm, joined = serverTime d1\<rparr> (users d1 room))\<rparr>))"

definition updateUserJoined :: "jsstring \<Rightarrow> jsstring \<Rightarrow> firestore \<Rightarrow> (firestoreError + unit) \<times> firestore" where
  "updateUserJoined room uid d =
     (case nextFault d of
        (True, d1) \<Rightarrow> (Inl Unavailable, d1)
      | (False, d1) \<Rightarrow>
          (case map_of (users d1 room) uid of
             None \<Rightarrow> (Inl NotFound, d1)
           | Some u \<Rightarrow>
               (Inr (), d1\<lparr>users := (users d1)(room := putDoc uid (u\<lparr>joined := serverTime d1\<rparr>) (users d1 room))\<rparr>)))"

definition deleteUserDoc :: "jsstring \<Rightarrow> jsstring \<Rightarrow> firestore \<Rightarrow> (firestoreError + unit) \<times> firestore" where
  "deleteUserDoc room uid d =
     (case nextFault d of
        (True, d1) \<Rightarrow> (Inl Unavailable, d1)
      | (False, d1) \<Rightarrow>
          (Inr (), d1\<lparr>users := (users d1)(room := filter (\<lambda>(k, u). k \<noteq> uid) (users d1 room))\<rparr>))"

text \<open>
  \<open>addDoc\<close> and \<open>getDocs\<close> on \<open>chat-rooms/<room>/messages\<close>, and the commit of a
  write batch that deletes the listed documents: all of them, or none when the commit is
  rejected. The added document gets a fresh identifier and the server's time.
\<close>

definition addMessageDoc ::
  "jsstring \<Rightarrow> jsstring option \<Rightarrow> jsstring option \<Rightarrow> jsstring \<Rightarrow> jsstring \<Rightarrow> firestore
     \<Rightarrow> (firestoreError + nat) \<times> firestore" where
  "addMessageDoc room ty nm txt sender d =
     (case nextFault d of
        (True, d1) \<Rightarrow> (Inl Unavailable, d1)
      | (False, d1) \<Rightarrow>
          (Inr (nextId d1),
           d1\<lparr>messages := (messages d1)(room := messages d1 room @
                  [\<lparr>msgId = nextId d1, msgType = ty, msgName = nm, msgText = txt,
                    senderId = sender, timestamp = Some (serverTime d1)\<rparr>]),
              nextId := Suc (nextId d1)\<rparr>))"

definition getMessageDocs :: "jsstring \<Rightarrow> firestore \<Rightarrow> (firestoreError + message list) \<times> firestore" where
  "getMessageDocs room d =
     (case nextFault d of
        (True, d1) \<Rightarrow> (Inl Unavailable, d1)
      | (False, d1) \<Rightarrow> (Inr (messages d1 room), d1))"

definition commitDeleteBatch :: "jsstring \<Rightarrow> nat list \<Rightarrow> firestore \<Rightarrow> (firestoreError + unit) \<times> firestore" where
  "commitDeleteBatch room ids d =
     (case nextFault d of
        (True, d1) \<Rightarrow> (Inl Unavailable, d1)
      | (False, d1) \<Rightarrow>
          (Inr (), d1\<lparr>messages := (messages d1)(room := filter (\<lambda>m. msgId m \<notin> set ids) (messages d1 room))\<rparr>))"

section \<open>The client\<close>

text \<open>
  The state of one client: the store it talks to, the program's global variables, and
  the part of the page the handlers read and write. \<open>ui\<close> is the screen \<open>showUI\<close>
  selected last; an error slot is \<open>None\<close> while hidden; \<open>hash\<close> is
  \<open>window.location.hash\<close> without its \<open>#\<close>, and \<open>hashchangeQueued\<close> counts the
  \<open>hashchange\<close> events the browser has queued and not yet dispatched. A subscription
  handle is \<open>None\<close> for \<open>null\<close> and otherwise holds the room the listener watches.
  \<open>effects\<close> records, in order, the calls of the store and the assignments of the
  hash. Focus, the sidebar, the confirmation dialog, the room caption, the window title
  and scrolling are left out.
\<close>

datatype uiState = LoadingUI | RoomUI | PasswordUI | NameUI | ChatUI

datatype effect =
    ReadRoom jsstring
  | WriteRoom jsstring
  | ListUsers jsstring
  | WriteUser jsstring jsstring
  | TouchUser jsstring jsstring
  | RemoveUser jsstring jsstring
  | AppendMessage jsstring jsstring
  | ListMessages jsstring
  | DeleteMessages jsstring
  | AssignHash jsstring

text \<open>
  A rendered message: the \<open>data-id\<close> attribute, the presentation (system, own or
  other), the sender name and text shown, and the content of the \<open>chat-timestamp\<close>
  child: \<open>None\<close> when the element has no such child (system messages), \<open>Some None\<close>
  for the pending mark \<open>...\<close>, \<open>Some (Some t)\<close> for the formatted time of \<open>t\<close>.
\<close>

record element =
  dataId :: nat
  isSystem :: bool
  isSelf :: bool
  shownName :: "jsstring option"
  shownText :: jsstring
  shownTime :: "Timestamp option option"

record world =
  db :: firestore
  effects :: "effect list"
  currentUserId :: jsstring
  userName :: "jsstring option"
  currentRoom :: "jsstring option"
  unsubscribeMessages :: "jsstring option"
  unsubscribeUsers :: "jsstring option"
  isNavigating :: bool
  isWindowActive :: bool
  unreadMessages :: nat
  ui :: uiState
  hash :: jsstring
  hashchangeQueued :: nat
  roomError :: "jsstring option"
  passwordError :: "jsstring option"
  nameError :: "jsstring option"
  roomInput :: jsstring
  roomPasswordInput :: jsstring
  passwordVerifyInput :: jsstring
  nameInput :: jsstring
  messageInput :: jsstring
  messageList :: "element list"

text \<open>A call of the store from the client: the store changes and the call is recorded.\<close>

definition call :: "effect \<Rightarrow> (firestore \<Rightarrow> 'a \<times> firestore) \<Rightarrow> world \<Rightarrow> 'a \<times> world" where
  "call e f w = (case f (db w) of (r, d) \<Rightarrow> (r, w\<lparr>db := d, effects := effects w @ [e]\<rparr>))"

text \<open>
  A global that holds a string or \<open>null\<close> is an \<open>option\<close>; it is falsy when it is
  \<open>None\<close> or the empty string. \<open>template\<close> is \<open>${x}\<close> inside a template literal. The
  model does not tell \<open>undefined\<close>, the value of \<open>userName\<close> before the first
  navigation, from \<open>null\<close>.
\<close>

definition template :: "jsstring option \<Rightarrow> jsstring" where
  "template x = (case x of None \<Rightarrow> js ''null'' | Some s \<Rightarrow> s)"

definition showUI :: "uiState \<Rightarrow> world \<Rightarrow> world" where
  "showUI st w = w\<lparr>ui := st\<rparr>"

definition cleanupSubscriptions :: "world \<Rightarrow> world" where
  "cleanupSubscriptions w = w\<lparr>unsubscribeMessages := None, unsubscribeUsers := None\<rparr>"

text \<open>
  \<open>window.location.hash = h\<close>: the browser queues a \<open>hashchange\<close> event when the
  fragment changes, and none when it stays the same.
\<close>

definition setHash :: "jsstring \<Rightarrow> world \<Rightarrow> world" where
  "setHash h w =
     (let w1 = w\<lparr>effects := effects w @ [AssignHash h]\<rparr>
      in if hash w1 = h then w1
         else w1\<lparr>hash := h, hashchangeQueued := Suc (hashchangeQueued w1)\<rparr>)"

subsection \<open>Navigation\<close>

text \<open>
  \<open>verifyRoomExists\<close> shows the spinner, awaits \<open>getDoc\<close> and continues with its
  result in \<open>verifyRoomExists_resume\<close>.
\<close>

definition verifyRoomExists_resume :: "(firestoreError + roomDoc option) \<Rightarrow> world \<Rightarrow> world" where
  "verifyRoomExists_resume r w =
     (case r of
        Inr (Some roomSnap) \<Rightarrow> showUI PasswordUI w
      | Inr None \<Rightarrow> setHash [] (w\<lparr>roomError := Some (js ''Room not found. You can create it.'')\<rparr>)
      | Inl error \<Rightarrow> setHash [] (w\<lparr>roomError := Some (js ''An error occurred.'')\<rparr>))"

definition verifyRoomExists :: "jsstring \<Rightarrow> world \<Rightarrow> world" where
  "verifyRoomExists roomName w =
     (case call (ReadRoom roomName) (getRoomDoc roomName) (showUI LoadingUI w) of
        (r, w1) \<Rightarrow> verifyRoomExists_resume r w1)"

definition handleHashChange :: "world \<Rightarrow> world" where
  "handleHashChange w =
     (if isNavigating w then w\<lparr>isNavigating := False\<rparr>
      else let w1 = cleanupSubscriptions w
           in if hash w1 \<noteq> [] then verifyRoomExists (hash w1) (w1\<lparr>currentRoom := Some (hash w1)\<rparr>)
              else (showUI RoomUI (w1\<lparr>currentRoom := None, userName := None\<rparr>))
                     \<lparr>roomInput := [], roomPasswordInput := [], passwordVerifyInput := [],
                      nameInput := []\<rparr>)"

text \<open>The browser dispatches one queued \<open>hashchange\<close> event to its listener.\<close>

definition dispatchHashChange :: "world \<Rightarrow> world" where
  "dispatchHashChange w =
     (if hashchangeQueued w = 0 then w
      else handleHashChange (w\<lparr>hashchangeQueued := hashchangeQueued w - 1\<rparr>))"

subsection \<open>Creating or joining a room\<close>

definition handleRoomFormSubmit :: "platform \<Rightarrow> world \<Rightarrow> world" where
  "handleRoomFormSubmit P w =
     (let w0 = w\<lparr>roomError := None\<rparr>;
          roomName = normalizeRoomName (toLowerCase P) (roomInput w0);
          password = trim (roomPasswordInput w0)
      in if roomName = [] \<or> password = []
         then w0\<lparr>roomError := Some (js ''Room name and password are required.'')\<rparr>
         else
           let w1 = showUI LoadingUI w0;
               ph = hashPassword P password
           in case call (ReadRoom roomName) (getRoomDoc roomName) w1 of
                (Inl error, w2) \<Rightarrow>
                  showUI RoomUI (w2\<lparr>roomError := Some (js ''An error occurred. Please try again.'')\<rparr>)
              | (Inr (Some roomSnap), w2) \<Rightarrow>
                  if passwordHash roomSnap = ph
                  then showUI NameUI
                         (setHash roomName (w2\<lparr>currentRoom := Some roomName, isNavigating := True\<rparr>))
                  else showUI RoomUI (w2\<lparr>roomError := Some (js ''Invalid password for this room.'')\<rparr>)
              | (Inr None, w2) \<Rightarrow>
                  (case call (WriteRoom roomName) (setRoomDoc roomName ph) w2 of
                     (Inl error, w3) \<Rightarrow>
                       showUI RoomUI
                         (w3\<lparr>roomError := Some (js ''An error occurred. Please try again.'')\<rparr>)
                   | (Inr u, w3) \<Rightarrow>
                       showUI NameUI
                         (setHash roomName (w3\<lparr>currentRoom := Some roomName, isNavigating := True\<rparr>))))"

subsection \<open>Verifying the password of a room reached by its link\<close>

text \<open>
  \<open>handlePasswordVerifySubmit\<close> runs up to its \<open>getDoc\<close> in
  \<open>handlePasswordVerifySubmit_begin\<close>, which returns the digest and the room of the
  document reference it built, or \<open>None\<close> when the handler returns early; the code after
  the \<open>await\<close> is \<open>handlePasswordVerifySubmit_resume\<close>. The digest is awaited as well;
  the model computes it within the first step.
\<close>

definition handlePasswordVerifySubmit_begin :: "platform \<Rightarrow> world \<Rightarrow> world \<times> (jsstring \<times> jsstring) option" where
  "handlePasswordVerifySubmit_begin P w =
     (let w0 = w\<lparr>passwordError := None\<rparr>;
          password = trim (passwordVerifyInput w0)
      in case currentRoom w0 of
           None \<Rightarrow> (w0, None)
         | Some room \<Rightarrow>
             if password = [] \<or> room = [] then (w0, None)
             else (showUI LoadingUI w0, Some (hashPassword P password, room)))"

definition handlePasswordVerifySubmit_resume :: "jsstring \<Rightarrow> (firestoreError + roomDoc option) \<Rightarrow> world \<Rightarrow> world" where
  "handlePasswordVerifySubmit_resume ph r w =
     (case r of
        Inr (Some roomSnap) \<Rightarrow>
          if passwordHash roomSnap = ph then showUI NameUI w
          else showUI PasswordUI (w\<lparr>passwordError := Some (js ''Invalid password. Please try again.'')\<rparr>)
      | Inr None \<Rightarrow>
          showUI PasswordUI (w\<lparr>passwordError := Some (js ''Invalid password. Please try again.'')\<rparr>)
      | Inl error \<Rightarrow> showUI PasswordUI (w\<lparr>passwordError := Some (js ''An error occurred.'')\<rparr>))"

definition handlePasswordVerifySubmit :: "platform \<Rightarrow> world \<Rightarrow> world" where
  "handlePasswordVerifySubmit P w =
     (case handlePasswordVerifySubmit_begin P w of
        (w1, None) \<Rightarrow> w1
      | (w1, Some (ph, room)) \<Rightarrow>
          (case call (ReadRoom room) (getRoomDoc room) w1 of
             (r, w2) \<Rightarrow> handlePasswordVerifySubmit_resume ph r w2))"

subsection \<open>Claiming a display name\<close>

text \<open>
  The \<open>forEach\<close> over the participant snapshot: \<open>nameIsTaken\<close> and
  \<open>existingUserDoc\<close>, starting from \<open>false\<close> and \<open>null\<close>.
\<close>

definition scanUsers ::
  "(jsstring \<Rightarrow> jsstring) \<Rightarrow> jsstring \<Rightarrow> jsstring \<Rightarrow> (jsstring \<times> userDoc) list
     \<Rightarrow> bool \<times> (jsstring \<times> userDoc) option" where
  "scanUsers lc uid nm docs =
     fold (\<lambda>(docId, data) (nameIsTaken, existingUserDoc).
             if lc (name data) = lc nm
             then (if docId \<noteq> uid then (True, existingUserDoc)
                   else (nameIsTaken, Some (docId, data)))
             else (nameIsTaken, existingUserDoc))
          docs (False, None)"

definition listenForMessages :: "world \<Rightarrow> world" where
  "listenForMessages w = w\<lparr>unsubscribeMessages := currentRoom w\<rparr>"

definition listenForUsers :: "world \<Rightarrow> world" where
  "listenForUsers w = w\<lparr>unsubscribeUsers := currentRoom w\<rparr>"

text \<open>
  \<open>handleNameFormSubmit\<close> up to its \<open>getDocs\<close>, which lists the participants of the
  room that is current then; and the code after that \<open>await\<close>, which reads
  \<open>currentRoom\<close> again for the document references it builds. A reference built from
  \<open>null\<close> or from the empty string is rejected by the store's library, and like every
  rejection ends in the \<open>catch\<close> block. The writes that follow are awaited one after the
  other; the model runs them in one step. The callback of the participant subscription
  only renders the participant list and is not modelled; \<open>listenForUsers\<close> records the
  subscription.
\<close>

definition handleNameFormSubmit_begin :: "world \<Rightarrow> world \<times> (jsstring \<times> jsstring) option" where
  "handleNameFormSubmit_begin w =
     (let w0 = w\<lparr>nameError := None\<rparr>;
          nm = trim (nameInput w0)
      in case currentRoom w0 of
           None \<Rightarrow> (w0, None)
         | Some room \<Rightarrow>
             if nm = [] \<or> room = [] then (w0, None)
             else (showUI LoadingUI w0, Some (nm, room)))"

definition nameFormCatch :: "world \<Rightarrow> world" where
  "nameFormCatch w = showUI NameUI (w\<lparr>nameError := Some (js ''An error occurred while joining.'')\<rparr>)"

definition nameFormJoined :: "world \<Rightarrow> world" where
  "nameFormJoined w = listenForUsers (listenForMessages (showUI ChatUI w))"

definition handleNameFormSubmit_resume ::
  "platform \<Rightarrow> jsstring \<Rightarrow> (firestoreError + (jsstring \<times> userDoc) list) \<Rightarrow> world \<Rightarrow> world" where
  "handleNameFormSubmit_resume P nm r w =
     (case r of
        Inl error \<Rightarrow> nameFormCatch w
      | Inr querySnapshot \<Rightarrow>
          (case scanUsers (toLowerCase P) (currentUserId w) nm querySnapshot of
             (True, existingUserDoc) \<Rightarrow>
               showUI NameUI
                 (w\<lparr>nameError := Some (js ''This name is already in use. Please choose another.'')\<rparr>)
           | (False, existingUserDoc) \<Rightarrow>
               let w1 = w\<lparr>userName := Some nm\<rparr>;
                   uid = currentUserId w1
               in (case currentRoom w1 of
                     None \<Rightarrow> nameFormCatch w1
                   | Some room \<Rightarrow>
                       if room = [] then nameFormCatch w1
                       else
                         (case existingUserDoc of
                            Some ghost \<Rightarrow>
                              (case call (TouchUser room uid) (updateUserJoined room uid) w1 of
                                 (Inl error, w2) \<Rightarrow> nameFormCatch w2
                               | (Inr u, w2) \<Rightarrow> nameFormJoined w2)
                          | None \<Rightarrow>
                              (case call (WriteUser room uid) (setUserDoc room uid nm) w1 of
                                 (Inl error, w2) \<Rightarrow> nameFormCatch w2
                               | (Inr u, w2) \<Rightarrow>
                                   (case call (AppendMessage room (nm @ js '' has joined the room.''))
                                           (addMessageDoc room (Some (js ''event'')) None
                                              (nm @ js '' has joined the room.'') (js ''system'')) w2 of
                                      (Inl error, w3) \<Rightarrow> nameFormCatch w3
                                    | (Inr mid, w3) \<Rightarrow> nameFormJoined w3))))))"

definition handleNameFormSubmit :: "platform \<Rightarrow> world \<Rightarrow> world" where
  "handleNameFormSubmit P w =
     (case handleNameFormSubmit_begin w of
        (w1, None) \<Rightarrow> w1
      | (w1, Some (nm, room)) \<Rightarrow>
          (case call (ListUsers room) (getUserDocs room) w1 of
             (r, w2) \<Rightarrow> handleNameFormSubmit_resume P nm r w2))"


subsection \<open>Leaving the room\<close>

definition handleLeaveRoom :: "world \<Rightarrow> world" where
  "handleLeaveRoom w =
     (case (currentRoom w, userName w) of
        (Some room, Some nm) \<Rightarrow>
          if room = [] \<or> nm = [] \<or> currentUserId w = [] then w
          else
            (case call (AppendMessage room (nm @ js '' has left the room.''))
                    (addMessageDoc room (Some (js ''event'')) None
                       (nm @ js '' has left the room.'') (js ''system'')) w of
               (Inl error, w1) \<Rightarrow> setHash [] w1
             | (Inr mid, w1) \<Rightarrow>
                 (case call (RemoveUser room (currentUserId w1))
                         (deleteUserDoc room (currentUserId w1)) w1 of
                    (Inl error, w2) \<Rightarrow> setHash [] w2
                  | (Inr u, w2) \<Rightarrow> setHash [] w2))
      | _ \<Rightarrow> w)"

subsection \<open>Sending a message\<close>

text \<open>
  \<open>handleMessageFormSubmit\<close> up to its \<open>addDoc\<close>: the state at the \<open>await\<close> and the
  document to write (room, name, text, sender), or \<open>None\<close> when nothing is sent; and the
  code after the \<open>await\<close>.
\<close>

definition handleMessageFormSubmit_begin ::
  "world \<Rightarrow> world \<times> (jsstring \<times> jsstring \<times> jsstring \<times> jsstring) option" where
  "handleMessageFormSubmit_begin w =
     (let txt = trim (messageInput w)
      in case (currentRoom w, userName w) of
           (Some room, Some nm) \<Rightarrow>
             if txt \<noteq> [] \<and> room \<noteq> [] \<and> nm \<noteq> [] \<and> currentUserId w \<noteq> []
             then (w\<lparr>messageInput := []\<rparr>, Some (room, nm, txt, currentUserId w))
             else (w, None)
         | _ \<Rightarrow> (w, None))"

definition handleMessageFormSubmit_resume :: "jsstring \<Rightarrow> (firestoreError + nat) \<Rightarrow> world \<Rightarrow> world" where
  "handleMessageFormSubmit_resume txt r w =
     (case r of Inl error \<Rightarrow> w\<lparr>messageInput := txt\<rparr> | Inr mid \<Rightarrow> w)"

definition handleMessageFormSubmit :: "world \<Rightarrow> world" where
  "handleMessageFormSubmit w =
     (case handleMessageFormSubmit_begin w of
        (w1, None) \<Rightarrow> w1
      | (w1, Some (room, nm, txt, sender)) \<Rightarrow>
          (case call (AppendMessage room txt) (addMessageDoc room None (Some nm) txt sender) w1 of
             (r, w2) \<Rightarrow> handleMessageFormSubmit_resume txt r w2))"

subsection \<open>Deleting the history\<close>

definition handleDeleteChat :: "world \<Rightarrow> world" where
  "handleDeleteChat w =
     (case currentRoom w of
        None \<Rightarrow> w
      | Some room \<Rightarrow>
          if room = [] then w
          else
            (case call (ListMessages room) (getMessageDocs room) (showUI LoadingUI w) of
               (Inl error, w1) \<Rightarrow> showUI ChatUI w1
             | (Inr snapshot, w1) \<Rightarrow>
                 if snapshot = [] then showUI ChatUI (showUI ChatUI w1)
                 else
                   (case call (DeleteMessages room) (commitDeleteBatch room (map msgId snapshot)) w1 of
                      (Inl error, w2) \<Rightarrow> showUI ChatUI w2
                    | (Inr u, w2) \<Rightarrow>
                        (case call (AppendMessage room (template (userName w2) @ js '' cleared the chat history.''))
                                (addMessageDoc room (Some (js ''event'')) None
                                   (template (userName w2) @ js '' cleared the chat history.'')
                                   (js ''system''))
                                (w2\<lparr>messageList := []\<rparr>) of
                           (r, w3) \<Rightarrow> showUI ChatUI w3))))"

subsection \<open>The message subscription\<close>

text \<open>
  \<open>Array.prototype.sort\<close> with a comparison function is a stable sort: elements that
  compare equal keep their order. It is modelled by insertion from the right, which
  places an element before the first one it does not compare greater than.
\<close>

fun insertBy :: "('a \<Rightarrow> 'a \<Rightarrow> int) \<Rightarrow> 'a \<Rightarrow> 'a list \<Rightarrow> 'a list" where
  "insertBy cmp x [] = [x]"
| "insertBy cmp x (y # ys) = (if cmp x y \<le> 0 then x # y # ys else y # insertBy cmp x ys)"

definition jsSort :: "('a \<Rightarrow> 'a \<Rightarrow> int) \<Rightarrow> 'a list \<Rightarrow> 'a list" where
  "jsSort cmp xs = foldr (insertBy cmp) xs []"

text \<open>
  \<open>a.timestamp?.seconds || 0\<close>: the seconds of the timestamp, and 0 when the
  timestamp is \<open>null\<close> or its seconds are 0; and the comparison function of the sort.
\<close>

definition secondsOrZero :: "message \<Rightarrow> int" where
  "secondsOrZero a =
     (case timestamp a of
        None \<Rightarrow> 0
      | Some t \<Rightarrow> if seconds t = 0 then 0 else seconds t)"

definition compareMessages :: "message \<Rightarrow> message \<Rightarrow> int" where
  "compareMessages a b = secondsOrZero a - secondsOrZero b"

text \<open>The order of Firestore timestamps: by seconds, then by nanoseconds.\<close>

definition timestampLess :: "Timestamp \<Rightarrow> Timestamp \<Rightarrow> bool" where
  "timestampLess a b =
     (seconds a < seconds b \<or> (seconds a = seconds b \<and> nanoseconds a < nanoseconds b))"

text \<open>\<open>renderMessages\<close>: one element per message, appended to the list.\<close>

datatype renderType = RenderAdded | RenderAll

definition renderElement :: "jsstring \<Rightarrow> message \<Rightarrow> element" where
  "renderElement uid msg =
     (if senderId msg = js ''system''
      then \<lparr>dataId = msgId msg, isSystem = True, isSelf = (senderId msg = uid),
            shownName = None, shownText = msgText msg, shownTime = None\<rparr>
      else \<lparr>dataId = msgId msg, isSystem = False, isSelf = (senderId msg = uid),
            shownName = Some (case msgName msg of
                                None \<Rightarrow> js ''Anonymous''
                              | Some n \<Rightarrow> if n = [] then js ''Anonymous'' else n),
            shownText = msgText msg, shownTime = Some (timestamp msg)\<rparr>)"

definition renderMessages :: "message list \<Rightarrow> renderType \<Rightarrow> world \<Rightarrow> world" where
  "renderMessages msgs ty w =
     (let w1 = (if ty = RenderAll then w\<lparr>messageList := []\<rparr> else w)
      in w1\<lparr>messageList := messageList w1 @ map (renderElement (currentUserId w1)) msgs\<rparr>)"

text \<open>
  The two \<open>querySelector\<close> uses of the callback: the first element with the given
  \<open>data-id\<close> that has a \<open>chat-timestamp\<close> child gets a new time, and the first
  element with the given \<open>data-id\<close> is removed; nothing happens when there is none.
\<close>

fun patchTimestamp :: "nat \<Rightarrow> Timestamp option \<Rightarrow> element list \<Rightarrow> element list" where
  "patchTimestamp i t [] = []"
| "patchTimestamp i t (e # es) =
     (if dataId e = i \<and> shownTime e \<noteq> None then e\<lparr>shownTime := Some t\<rparr> # es
      else e # patchTimestamp i t es)"

fun removeElement :: "nat \<Rightarrow> element list \<Rightarrow> element list" where
  "removeElement i [] = []"
| "removeElement i (e # es) = (if dataId e = i then es else e # removeElement i es)"

datatype changeType = Added | Modified | Removed

text \<open>
  The callback of \<open>onSnapshot\<close> in \<open>listenForMessages\<close>, for the document changes of
  one snapshot: the loop over the changes, then the sort of the added messages and their
  rendering.
\<close>

definition processChange :: "changeType \<times> message \<Rightarrow> message list \<times> world \<Rightarrow> message list \<times> world" where
  "processChange ch acc =
     (case (ch, acc) of
        ((Added, msgData), (msgs, w)) \<Rightarrow>
          (msgs @ [msgData],
           if senderId msgData \<noteq> currentUserId w \<and> \<not> isWindowActive w
           then w\<lparr>unreadMessages := Suc (unreadMessages w)\<rparr> else w)
      | ((Modified, msgData), (msgs, w)) \<Rightarrow>
          (msgs,
           if senderId msgData = currentUserId w
           then w\<lparr>messageList := patchTimestamp (msgId msgData) (timestamp msgData) (messageList w)\<rparr>
           else w)
      | ((Removed, msgData), (msgs, w)) \<Rightarrow>
          (msgs, w\<lparr>messageList := removeElement (msgId msgData) (messageList w)\<rparr>))"

definition onMessagesSnapshot :: "(changeType \<times> message) list \<Rightarrow> world \<Rightarrow> world" where
  "onMessagesSnapshot docChanges w =
     (case fold processChange docChanges ([], w) of
        (msgs, w1) \<Rightarrow> renderMessages (jsSort compareMessages msgs) RenderAdded w1)"

subsection \<open>Events of the environment\<close>

text \<open>
  The user changes the fragment of the address (a link, the address bar, the back
  button): the browser queues a \<open>hashchange\<close> event when the fragment changes.
\<close>

definition userNavigates :: "jsstring \<Rightarrow> world \<Rightarrow> world" where
  "userNavigates h w =
     (if hash w = h then w else w\<lparr>hash := h, hashchangeQueued := Suc (hashchangeQueued w)\<rparr>)"

text \<open>The script of rejections of the store is part of the environment.\<close>

definition withFaults :: "bool list \<Rightarrow> world \<Rightarrow> world" where
  "withFaults fs w = w\<lparr>db := (db w)\<lparr>faults := fs\<rparr>\<rparr>"

text \<open>
  A schedule in which the user navigates while a password check is in flight: the
  password form is submitted and the store answers the \<open>getDoc\<close>; before the answer
  reaches the client, the user navigates to the fragment \<open>h\<close> and the browser dispatches
  the event to \<open>handleHashChange\<close>; then the answer arrives and the code after the
  \<open>await\<close> runs.
\<close>

definition verifyThenNavigate :: "platform \<Rightarrow> jsstring \<Rightarrow> world \<Rightarrow> world" where
  "verifyThenNavigate P h w =
     (case handlePasswordVerifySubmit_begin P w of
        (w1, None) \<Rightarrow> dispatchHashChange (userNavigates h w1)
      | (w1, Some (ph, room)) \<Rightarrow>
          (case call (ReadRoom room) (getRoomDoc room) w1 of
             (r, w2) \<Rightarrow>
               handlePasswordVerifySubmit_resume ph r (dispatchHashChange (userNavigates h w2))))"



section \<open>Concrete platforms, stores and clients\<close>

text \<open>
  For evaluation: a platform whose strings are ASCII, with one byte per code unit and a
  stand-in for the digest that returns its input; an empty store; and the page as
  \<open>initializeAppLogic\<close> finds it, for a client identity and a fragment.
\<close>

definition demoPlatform :: platform where
  "demoPlatform = \<lparr>toLowerCase = toLowerASCII, encode = map of_nat, sha256 = (\<lambda>bs. bs)\<rparr>"

definition emptyStore :: firestore where
  "emptyStore =
     \<lparr>rooms = Map.empty, users = (\<lambda>room. []), messages = (\<lambda>room. []),
      serverTime = \<lparr>seconds = 1700000000, nanoseconds = 0\<rparr>, nextId = 0, faults = []\<rparr>"

definition startWorld :: "firestore \<Rightarrow> jsstring \<Rightarrow> jsstring \<Rightarrow> world" where
  "startWorld d uid h =
     \<lparr>db = d, effects = [], currentUserId = uid, userName = None, currentRoom = None,
      unsubscribeMessages = None, unsubscribeUsers = None, isNavigating = False,
      isWindowActive = True, unreadMessages = 0, ui = LoadingUI, hash = h,
      hashchangeQueued = 0, roomError = None, passwordError = None, nameError = None,
      roomInput = [], roomPasswordInput = [], passwordVerifyInput = [], nameInput = [],
      messageInput = [], messageList = []\<rparr>"

definition initializeAppLogic :: "firestore \<Rightarrow> jsstring \<Rightarrow> jsstring \<Rightarrow> world" where
  "initializeAppLogic d uid h = handleHashChange (startWorld d uid h)"

text \<open>
  A room with the digest of \<open>hunter2\<close>, and a client that has reached the password
  screen of that room by its link.
\<close>

definition teamStore :: firestore where
  "teamStore =
     emptyStore\<lparr>rooms := [js ''team-x'' \<mapsto>
        \<lparr>passwordHash = hashPassword demoPlatform (js ''hunter2''),
         createdAt = \<lparr>seconds = 1600000000, nanoseconds = 0\<rparr>\<rparr>]\<rparr>"

definition teamVisitor :: world where
  "teamVisitor = initializeAppLogic teamStore (js ''u1'') (js ''team-x'')"

text \<open>
  The same room with one participant record, left behind by the client \<open>u1\<close> under the
  name \<open>Alice\<close>; and that client on the name screen of the room, with a name typed in.
\<close>

definition ghostStore :: firestore where
  "ghostStore =
     teamStore\<lparr>users := (\<lambda>room. [])(js ''team-x'' :=
        [(js ''u1'', \<lparr>name = js ''Alice'', joined = \<lparr>seconds = 1650000000, nanoseconds = 0\<rparr>\<rparr>)])\<rparr>"

definition atNameForm :: "firestore \<Rightarrow> jsstring \<Rightarrow> jsstring \<Rightarrow> world" where
  "atNameForm d uid nm =
     (showUI NameUI (initializeAppLogic d uid (js ''team-x'')))\<lparr>nameInput := nm\<rparr>"

text \<open>
  The client \<open>u1\<close> in the chat of the room, which it entered as \<open>Alice\<close> when the room had
  no participants; and two messages of another client that the server stamped within one
  second, six tenths of a second apart.
\<close>

definition inChat :: world where
  "inChat = handleNameFormSubmit demoPlatform (atNameForm teamStore (js ''u1'') (js ''Alice''))"

definition earlyMessage :: message where
  "earlyMessage =
     \<lparr>msgId = 7, msgType = None, msgName = Some (js ''Bob''), msgText = js ''knock knock'',
      senderId = js ''u2'', timestamp = Some \<lparr>seconds = 1700000100, nanoseconds = 200000000\<rparr>\<rparr>"

definition lateMessage :: message where
  "lateMessage =
     \<lparr>msgId = 3, msgType = None, msgName = Some (js ''Bob''), msgText = js ''anyone there?'',
      senderId = js ''u2'', timestamp = Some \<lparr>seconds = 1700000100, nanoseconds = 800000000\<rparr>\<rparr>"

text \<open>
  The same client after a deletion of the history whose announcement the store rejected:
  the room has no messages.
\<close>

definition quietChat :: world where
  "quietChat = handleDeleteChat (withFaults [False, False, True] inChat)"

text \<open>
  A store with a second room, \<open>vault\<close>, under another password; and a client on the
  password screen of \<open>team-x\<close> that has typed the password of \<open>team-x\<close>.
\<close>

definition vaultStore :: firestore where
  "vaultStore =
     teamStore\<lparr>rooms := (rooms teamStore)(js ''vault'' \<mapsto>
        \<lparr>passwordHash = hashPassword demoPlatform (js ''s3cret''),
         createdAt = \<lparr>seconds = 1610000000, nanoseconds = 0\<rparr>\<rparr>)\<rparr>"

definition vaultVisitor :: world where
  "vaultVisitor =
     (initializeAppLogic vaultStore (js ''u1'') (js ''team-x''))\<lparr>passwordVerifyInput := js ''hunter2''\<rparr>"



section \<open>Facts about literals and the concrete stores\<close>

lemma js_eq_iff [simp]: "(js s = js t) = (s = t)"
  by (simp add: js_def inj_map_eq_map inj_of_char)

lemma js_Nil_iff [simp]: "(js s = []) = (s = [])"
  by (simp add: js_def)

lemma js_append: "js s @ js t = js (s @ t)"
  by (simp add: js_def)

lemma initializeAppLogic_existing:
  "rooms d h = Some r \<Longrightarrow> faults d = [] \<Longrightarrow> h \<noteq> [] \<Longrightarrow>
   initializeAppLogic d uid h
     = (startWorld d uid h)\<lparr>currentRoom := Some h, ui := PasswordUI, effects := [ReadRoom h]\<rparr>"
  by (simp add: initializeAppLogic_def startWorld_def handleHashChange_def cleanupSubscriptions_def
      verifyRoomExists_def verifyRoomExists_resume_def showUI_def call_def getRoomDoc_def
      nextFault_def)

lemma team_room: "rooms teamStore (js ''team-x'') = Some \<lparr>passwordHash = hashPassword demoPlatform (js ''hunter2''),
         createdAt = \<lparr>seconds = 1600000000, nanoseconds = 0\<rparr>\<rparr>"
   "faults teamStore = []"
  by (simp_all add: teamStore_def emptyStore_def)

lemma ghost_facts:
  "rooms ghostStore = rooms teamStore" "faults ghostStore = []"
  "users ghostStore (js ''team-x'') = [(js ''u1'', \<lparr>name = js ''Alice'', joined = \<lparr>seconds = 1650000000, nanoseconds = 0\<rparr>\<rparr>)]"
  "messages ghostStore = (\<lambda>room. [])" "serverTime ghostStore = \<lparr>seconds = 1700000000, nanoseconds = 0\<rparr>"
  "nextId ghostStore = 0"
  by (simp_all add: ghostStore_def teamStore_def emptyStore_def)

lemma atNameForm_ghost:
  "atNameForm ghostStore uid nm
     = (startWorld ghostStore uid (js ''team-x''))
         \<lparr>currentRoom := Some (js ''team-x''), ui := NameUI, effects := [ReadRoom (js ''team-x'')],
          nameInput := nm\<rparr>"
  by (simp add: atNameForm_def showUI_def
      initializeAppLogic_existing [OF team_room(1) [folded ghost_facts(1)] ghost_facts(2)])

lemma withFaults_simps [simp]:
  "faults (db (withFaults fs w)) = fs"
  "rooms (db (withFaults fs w)) = rooms (db w)"
  "users (db (withFaults fs w)) = users (db w)"
  "messages (db (withFaults fs w)) = messages (db w)"
  "serverTime (db (withFaults fs w)) = serverTime (db w)"
  "nextId (db (withFaults fs w)) = nextId (db w)"
  "effects (withFaults fs w) = effects w"
  "currentUserId (withFaults fs w) = currentUserId w"
  "userName (withFaults fs w) = userName w"
  "currentRoom (withFaults fs w) = currentRoom w"
  "ui (withFaults fs w) = ui w"
  "hash (withFaults fs w) = hash w"
  "hashchangeQueued (withFaults fs w) = hashchangeQueued w"
  "isNavigating (withFaults fs w) = isNavigating w"
  "messageList (withFaults fs w) = messageList w"
  "messageInput (withFaults fs w) = messageInput w"
  "roomError (withFaults fs w) = roomError w"
  "passwordError (withFaults fs w) = passwordError w"
  "nameError (withFaults fs w) = nameError w"
  "roomInput (withFaults fs w) = roomInput w"
  "roomPasswordInput (withFaults fs w) = roomPasswordInput w"
  "passwordVerifyInput (withFaults fs w) = passwordVerifyInput w"
  "nameInput (withFaults fs w) = nameInput w"
  by (simp_all add: withFaults_def)

section \<open>Room-name normalisation\<close>

lemma slugChar_not_white: "slugChar c \<Longrightarrow> \<not> isWhiteSpace c"
  by (auto simp: slugChar_def isWhiteSpace_def)

lemma dropWhile_none: "\<forall>x \<in> set xs. \<not> P x \<Longrightarrow> dropWhile P xs = xs"
  by (cases xs) auto

lemma trim_slug: "list_all slugChar t \<Longrightarrow> trim t = t"
  by (simp add: trim_def dropWhile_none list_all_iff slugChar_not_white)

lemma stripNonSlug_slug: "list_all slugChar t \<Longrightarrow> stripNonSlug t = t"
  by (simp add: stripNonSlug_def list_all_iff)

lemma stripNonSlug_all: "list_all slugChar (stripNonSlug s)"
  by (simp add: stripNonSlug_def list_all_iff)

lemma toLowerASCII_slug: "list_all slugChar t \<Longrightarrow> toLowerASCII t = t"
  by (induction t) (auto simp: toLowerASCII_def slugChar_def)

text \<open>
  Claim C9. Room-name normalisation is idempotent and its result consists of code units
  of \<open>[a-z0-9-]\<close> only, that is, it matches \<open>^[a-z0-9-]*$\<close>. The lower-casing of the
  platform enters through the one fact used about it: a string of lower-case ASCII
  letters, digits and hyphens is its own lower-casing.
\<close>

theorem normalizeRoomName_idempotent:
  assumes "\<And>t. list_all slugChar t \<Longrightarrow> lc t = t"
  shows "normalizeRoomName lc (normalizeRoomName lc s) = normalizeRoomName lc s
         \<and> list_all slugChar (normalizeRoomName lc s)"
proof -
  let ?n = "normalizeRoomName lc s"
  have a: "list_all slugChar ?n"
    by (simp add: normalizeRoomName_def stripNonSlug_all)
  have "normalizeRoomName lc ?n = stripNonSlug (lc ?n)"
    using a by (simp add: normalizeRoomName_def [of lc ?n] trim_slug)
  also have "\<dots> = stripNonSlug ?n"
    using a assms by simp
  also have "\<dots> = ?n"
    using a by (rule stripNonSlug_slug)
  finally show ?thesis using a by simp
qed

theorem normalizeRoomName_idempotent_witness:
  "normalizeRoomName toLowerASCII (normalizeRoomName toLowerASCII (js '' Team X-1! ''))
     = normalizeRoomName toLowerASCII (js '' Team X-1! '')
   \<and> list_all slugChar (normalizeRoomName toLowerASCII (js '' Team X-1! ''))
   \<and> normalizeRoomName toLowerASCII (js '' Team X-1! '') = js ''teamx-1''"
proof -
  have v: "normalizeRoomName toLowerASCII (js '' Team X-1! '') = js ''teamx-1''"
    by (simp add: normalizeRoomName_def stripNonSlug_def trim_def toLowerASCII_def js_def
        isWhiteSpace_def slugChar_def)
  show ?thesis
    using normalizeRoomName_idempotent [of toLowerASCII "js '' Team X-1! ''", OF toLowerASCII_slug] v
    by simp
qed

section \<open>Passwords are trimmed before they are hashed\<close>

lemma room_form_password:
  "trim p = trim q \<Longrightarrow>
   (handleRoomFormSubmit P (w\<lparr>roomPasswordInput := p\<rparr>))\<lparr>roomPasswordInput := q\<rparr>
     = handleRoomFormSubmit P (w\<lparr>roomPasswordInput := q\<rparr>)"
  by (simp add: handleRoomFormSubmit_def Let_def call_def showUI_def setHash_def
      split: prod.splits sum.splits option.splits)

lemma verify_form_password:
  "trim p = trim q \<Longrightarrow>
   (handlePasswordVerifySubmit P (w\<lparr>passwordVerifyInput := p\<rparr>))\<lparr>passwordVerifyInput := q\<rparr>
     = handlePasswordVerifySubmit P (w\<lparr>passwordVerifyInput := q\<rparr>)"
  by (simp add: handlePasswordVerifySubmit_def handlePasswordVerifySubmit_begin_def
      handlePasswordVerifySubmit_resume_def Let_def call_def showUI_def
      split: prod.splits sum.splits option.splits)

lemma room_form_creates:
  "normalizeRoomName (toLowerCase P) (roomInput w) = rn \<Longrightarrow> rn \<noteq> [] \<Longrightarrow> trim p \<noteq> [] \<Longrightarrow>
   rooms (db w) rn = None \<Longrightarrow> faults (db w) = [] \<Longrightarrow>
   rooms (db (handleRoomFormSubmit P (w\<lparr>roomPasswordInput := p\<rparr>))) rn
     = Some \<lparr>passwordHash = hashPassword P (trim p), createdAt = serverTime (db w)\<rparr>"
  by (simp add: handleRoomFormSubmit_def Let_def call_def showUI_def setHash_def getRoomDoc_def
      setRoomDoc_def nextFault_def
      split: prod.splits sum.splits option.splits)

lemma room_form_joins:
  "normalizeRoomName (toLowerCase P) (roomInput w) = rn \<Longrightarrow> rn \<noteq> [] \<Longrightarrow> trim p \<noteq> [] \<Longrightarrow>
   rooms (db w) rn = Some d \<Longrightarrow> faults (db w) = [] \<Longrightarrow>
   ui (handleRoomFormSubmit P (w\<lparr>roomPasswordInput := p\<rparr>))
     = (if passwordHash d = hashPassword P (trim p) then NameUI else RoomUI)"
  by (simp add: handleRoomFormSubmit_def Let_def call_def showUI_def setHash_def getRoomDoc_def
      setRoomDoc_def nextFault_def
      split: prod.splits sum.splits option.splits)

lemma verify_form_accepts:
  "currentRoom w = Some r \<Longrightarrow> r \<noteq> [] \<Longrightarrow> trim q \<noteq> [] \<Longrightarrow>
   rooms (db w) r = Some d \<Longrightarrow> faults (db w) = [] \<Longrightarrow>
   ui (handlePasswordVerifySubmit P (w\<lparr>passwordVerifyInput := q\<rparr>))
     = (if passwordHash d = hashPassword P (trim q) then NameUI else PasswordUI)"
  by (simp add: handlePasswordVerifySubmit_def handlePasswordVerifySubmit_begin_def
      handlePasswordVerifySubmit_resume_def Let_def call_def showUI_def getRoomDoc_def nextFault_def
      split: prod.splits sum.splits option.splits)

text \<open>
  Claim C10. The room form and the password form trim the submitted password before
  hashing it. For two passwords \<open>p\<close> and \<open>q\<close> that are equal after trimming: the digests
  are equal; each form ends in the same state for \<open>p\<close> as for \<open>q\<close> (the states differ in
  the untouched input field only); a room created with \<open>p\<close> stores the digest of
  \<open>trim p\<close>; and an existing room accepts \<open>p\<close> on either form exactly when its stored
  digest is the digest of \<open>trim p\<close>. The last two parts are stated for a store that
  answers every call.
\<close>

theorem passwords_trimmed_before_hashing:
  assumes "trim p = trim q"
  shows "hashPassword P (trim p) = hashPassword P (trim q)
     \<and> (handleRoomFormSubmit P (w\<lparr>roomPasswordInput := p\<rparr>))\<lparr>roomPasswordInput := q\<rparr>
          = handleRoomFormSubmit P (w\<lparr>roomPasswordInput := q\<rparr>)
     \<and> (handlePasswordVerifySubmit P (w\<lparr>passwordVerifyInput := p\<rparr>))\<lparr>passwordVerifyInput := q\<rparr>
          = handlePasswordVerifySubmit P (w\<lparr>passwordVerifyInput := q\<rparr>)
     \<and> (normalizeRoomName (toLowerCase P) (roomInput w) \<noteq> [] \<and> trim p \<noteq> [] \<and> faults (db w) = [] \<longrightarrow>
          (case rooms (db w) (normalizeRoomName (toLowerCase P) (roomInput w)) of
             None \<Rightarrow>
               rooms (db (handleRoomFormSubmit P (w\<lparr>roomPasswordInput := p\<rparr>)))
                  (normalizeRoomName (toLowerCase P) (roomInput w))
                 = Some \<lparr>passwordHash = hashPassword P (trim p), createdAt = serverTime (db w)\<rparr>
           | Some d \<Rightarrow>
               ui (handleRoomFormSubmit P (w\<lparr>roomPasswordInput := p\<rparr>))
                 = (if passwordHash d = hashPassword P (trim p) then NameUI else RoomUI)))
     \<and> (currentRoom w = Some r \<and> r \<noteq> [] \<and> trim p \<noteq> [] \<and> rooms (db w) r = Some d
           \<and> faults (db w) = [] \<longrightarrow>
          ui (handlePasswordVerifySubmit P (w\<lparr>passwordVerifyInput := p\<rparr>))
            = (if passwordHash d = hashPassword P (trim p) then NameUI else PasswordUI))"
proof -
  have a: "hashPassword P (trim p) = hashPassword P (trim q)"
    using assms by simp
  show ?thesis
    using assms a room_form_password [of p q P w] verify_form_password [of p q P w]
    by (auto simp: room_form_creates room_form_joins verify_form_accepts split: option.splits)
qed

theorem passwords_trimmed_before_hashing_witness:
  "trim (js '' hunter2 '') = trim (js ''hunter2'')
   \<and> rooms (db (handleRoomFormSubmit demoPlatform
        ((startWorld emptyStore (js ''u1'') [])\<lparr>roomInput := js ''Team-X'', roomPasswordInput := js '' hunter2 ''\<rparr>)))
        (js ''team-x'')
       = Some \<lparr>passwordHash = hashPassword demoPlatform (js ''hunter2''),
               createdAt = \<lparr>seconds = 1700000000, nanoseconds = 0\<rparr>\<rparr>
   \<and> ui (handleRoomFormSubmit demoPlatform
        ((startWorld teamStore (js ''u1'') [])\<lparr>roomInput := js ''Team-X'', roomPasswordInput := js '' hunter2 ''\<rparr>))
       = NameUI
   \<and> ui (handlePasswordVerifySubmit demoPlatform (teamVisitor\<lparr>passwordVerifyInput := js '' hunter2 ''\<rparr>))
       = NameUI"
proof -
  let ?w0 = "(startWorld emptyStore (js ''u1'') [])\<lparr>roomInput := js ''Team-X''\<rparr>"
  let ?w1 = "(startWorld teamStore (js ''u1'') [])\<lparr>roomInput := js ''Team-X''\<rparr>"
  let ?d = "\<lparr>passwordHash = hashPassword demoPlatform (js ''hunter2''),
             createdAt = \<lparr>seconds = 1600000000, nanoseconds = 0\<rparr>\<rparr>"
  have t: "trim (js '' hunter2 '') = trim (js ''hunter2'')"
    and t': "trim (js '' hunter2 '') = js ''hunter2''"
    and t'': "js ''hunter2'' \<noteq> []" and r: "js ''team-x'' \<noteq> []"
    by (simp_all add: trim_def js_def isWhiteSpace_def)
  have n: "normalizeRoomName (toLowerCase demoPlatform) (js ''Team-X'') = js ''team-x''"
    by (simp add: normalizeRoomName_def stripNonSlug_def trim_def toLowerASCII_def js_def
        isWhiteSpace_def slugChar_def demoPlatform_def)
  have w0: "roomInput ?w0 = js ''Team-X''" "faults (db ?w0) = []" "rooms (db ?w0) (js ''team-x'') = None"
    "serverTime (db ?w0) = \<lparr>seconds = 1700000000, nanoseconds = 0\<rparr>"
    by (simp_all add: startWorld_def emptyStore_def)
  have w1: "roomInput ?w1 = js ''Team-X''" "faults (db ?w1) = []" "rooms (db ?w1) (js ''team-x'') = Some ?d"
    by (simp_all add: startWorld_def emptyStore_def teamStore_def)
  have v: "currentRoom teamVisitor = Some (js ''team-x'')" "faults (db teamVisitor) = []"
    "rooms (db teamVisitor) (js ''team-x'') = Some ?d"
    by (simp_all add: teamVisitor_def initializeAppLogic_existing [OF team_room] startWorld_def
        team_room)
  have a: "rooms (db (handleRoomFormSubmit demoPlatform (?w0\<lparr>roomPasswordInput := js '' hunter2 ''\<rparr>)))
             (js ''team-x'')
           = Some \<lparr>passwordHash = hashPassword demoPlatform (js ''hunter2''),
                   createdAt = \<lparr>seconds = 1700000000, nanoseconds = 0\<rparr>\<rparr>"
    using passwords_trimmed_before_hashing [OF t, of demoPlatform ?w0]
    by (simp only: w0 n t' t'' r option.case simp_thms)
  have b: "ui (handleRoomFormSubmit demoPlatform (?w1\<lparr>roomPasswordInput := js '' hunter2 ''\<rparr>)) = NameUI"
    using passwords_trimmed_before_hashing [OF t, of demoPlatform ?w1]
    by (simp only: w1 n t' t'' r option.case simp_thms roomDoc.simps if_True)
  have c: "ui (handlePasswordVerifySubmit demoPlatform (teamVisitor\<lparr>passwordVerifyInput := js '' hunter2 ''\<rparr>))
           = NameUI"
    using passwords_trimmed_before_hashing [OF t, of demoPlatform teamVisitor "js ''team-x''" ?d]
    by (simp only: v t' t'' r simp_thms roomDoc.simps if_True)
  show ?thesis
    using t a b c by (simp only: world.update_convs simp_thms)
qed


section \<open>Claiming a display name\<close>

lemma scanUsers_fold:
  "fold (\<lambda>(docId, data) (nameIsTaken, existingUserDoc).
             if lc (name data) = lc nm
             then (if docId \<noteq> uid then (True, existingUserDoc)
                   else (nameIsTaken, Some (docId, data)))
             else (nameIsTaken, existingUserDoc))
          docs (t, e)
   = (t \<or> (\<exists>(i, d) \<in> set docs. i \<noteq> uid \<and> lc (name d) = lc nm),
      case filter (\<lambda>(i, d). i = uid \<and> lc (name d) = lc nm) docs of
        [] \<Rightarrow> e
      | x # xs \<Rightarrow> Some (last (x # xs)))"
proof (induction docs arbitrary: t e)
  case Nil
  then show ?case by simp
next
  case (Cons a docs)
  obtain i d where a: "a = (i, d)" by (cases a)
  show ?case
    unfolding a
    by (auto simp: Cons.IH split: list.splits)
qed

lemma scanUsers_taken:
  "fst (scanUsers lc uid nm docs) = (\<exists>(i, d) \<in> set docs. i \<noteq> uid \<and> lc (name d) = lc nm)"
  by (simp add: scanUsers_def scanUsers_fold)

lemma filter_own_absent:
  "uid \<notin> fst ` set docs \<Longrightarrow> filter (\<lambda>(i, d). i = uid \<and> P d) docs = []"
  by (auto simp: filter_empty_conv image_iff)

lemma filter_own_distinct:
  "distinct (map fst docs) \<Longrightarrow>
   filter (\<lambda>(i, d). i = uid \<and> P d) docs
     = (case map_of docs uid of None \<Rightarrow> [] | Some u \<Rightarrow> if P u then [(uid, u)] else [])"
proof (induction docs)
  case Nil
  then show ?case by simp
next
  case (Cons a docs)
  obtain i d where a: "a = (i, d)" by (cases a)
  show ?case
  proof (cases "i = uid")
    case True
    then have "uid \<notin> fst ` set docs"
      using Cons.prems a by simp
    then show ?thesis
      using True a by (simp add: filter_own_absent)
  next
    case False
    then show ?thesis
      using Cons a by simp
  qed
qed

lemma scanUsers_existing:
  "distinct (map fst docs) \<Longrightarrow>
   snd (scanUsers lc uid nm docs)
     = (case map_of docs uid of
          None \<Rightarrow> None
        | Some u \<Rightarrow> if lc (name u) = lc nm then Some (uid, u) else None)"
  by (simp add: scanUsers_def scanUsers_fold filter_own_distinct split: option.splits)







lemma name_form_begin:
  "currentRoom w = Some room \<Longrightarrow> room \<noteq> [] \<Longrightarrow> trim (nameInput w) \<noteq> [] \<Longrightarrow>
   handleNameFormSubmit P w
     = (case call (ListUsers room) (getUserDocs room) (showUI LoadingUI (w\<lparr>nameError := None\<rparr>)) of
          (r, w2) \<Rightarrow> handleNameFormSubmit_resume P (trim (nameInput w)) r w2)"
  by (simp add: handleNameFormSubmit_def handleNameFormSubmit_begin_def Let_def showUI_def)

lemma name_form_listed:
  "currentRoom w = Some room \<Longrightarrow> room \<noteq> [] \<Longrightarrow> trim (nameInput w) \<noteq> [] \<Longrightarrow>
   faults (db w) = [] \<Longrightarrow>
   handleNameFormSubmit P w
     = handleNameFormSubmit_resume P (trim (nameInput w)) (Inr (users (db w) room))
         (w\<lparr>nameError := None, ui := LoadingUI, effects := effects w @ [ListUsers room]\<rparr>)"
  by (simp add: name_form_begin call_def getUserDocs_def nextFault_def showUI_def)

lemma resume_rejoin:
  "scanUsers (toLowerCase P) (currentUserId w) nm docs = (False, Some g) \<Longrightarrow>
   currentRoom w = Some room \<Longrightarrow> room \<noteq> [] \<Longrightarrow> faults (db w) = [] \<Longrightarrow>
   map_of (users (db w) room) (currentUserId w) = Some u \<Longrightarrow>
   handleNameFormSubmit_resume P nm (Inr docs) w
     = w\<lparr>userName := Some nm,
         db := (db w)\<lparr>users := (users (db w))
                 (room := putDoc (currentUserId w) (u\<lparr>joined := serverTime (db w)\<rparr>) (users (db w) room))\<rparr>,
         effects := effects w @ [TouchUser room (currentUserId w)],
         ui := ChatUI, unsubscribeMessages := Some room, unsubscribeUsers := Some room\<rparr>"
  by (simp add: handleNameFormSubmit_resume_def Let_def call_def updateUserJoined_def nextFault_def
      nameFormJoined_def listenForMessages_def listenForUsers_def showUI_def)

lemma resume_join:
  "scanUsers (toLowerCase P) (currentUserId w) nm docs = (False, None) \<Longrightarrow>
   currentRoom w = Some room \<Longrightarrow> room \<noteq> [] \<Longrightarrow> faults (db w) = [] \<Longrightarrow>
   handleNameFormSubmit_resume P nm (Inr docs) w
     = w\<lparr>userName := Some nm,
         db := (db w)\<lparr>users := (users (db w))
                 (room := putDoc (currentUserId w) \<lparr>name = nm, joined = serverTime (db w)\<rparr> (users (db w) room)),
               messages := (messages (db w))
                 (room := messages (db w) room @
                    [\<lparr>msgId = nextId (db w), msgType = Some (js ''event''), msgName = None,
                      msgText = nm @ js '' has joined the room.'', senderId = js ''system'',
                      timestamp = Some (serverTime (db w))\<rparr>]),
               nextId := Suc (nextId (db w))\<rparr>,
         effects := effects w @ [WriteUser room (currentUserId w),
                                 AppendMessage room (nm @ js '' has joined the room.'')],
         ui := ChatUI, unsubscribeMessages := Some room, unsubscribeUsers := Some room\<rparr>"
  by (simp add: handleNameFormSubmit_resume_def Let_def call_def setUserDoc_def addMessageDoc_def
      nextFault_def nameFormJoined_def listenForMessages_def listenForUsers_def showUI_def)


lemma name_form_joins:
  assumes c: "currentRoom w = Some room" "room \<noteq> []" "trim (nameInput w) = nm" "nm \<noteq> []"
    and f: "faults (db w) = []"
    and s: "scanUsers (toLowerCase P) (currentUserId w) nm (users (db w) room) = (False, None)"
  shows "users (db (handleNameFormSubmit P w)) room
           = putDoc (currentUserId w) \<lparr>name = nm, joined = serverTime (db w)\<rparr> (users (db w) room)"
    and "messages (db (handleNameFormSubmit P w)) room
           = messages (db w) room @
               [\<lparr>msgId = nextId (db w), msgType = Some (js ''event''), msgName = None,
                 msgText = nm @ js '' has joined the room.'', senderId = js ''system'',
                 timestamp = Some (serverTime (db w))\<rparr>]"
    and "ui (handleNameFormSubmit P w) = ChatUI"
    and "userName (handleNameFormSubmit P w) = Some nm"
proof -
  let ?w1 = "w\<lparr>nameError := None, ui := LoadingUI, effects := effects w @ [ListUsers room]\<rparr>"
  have L: "handleNameFormSubmit P w = handleNameFormSubmit_resume P nm (Inr (users (db w) room)) ?w1"
    using name_form_listed [of w room P] c f by simp
  have R: "handleNameFormSubmit_resume P nm (Inr (users (db w) room)) ?w1 = 
       ?w1\<lparr>userName := Some nm,
         db := (db ?w1)\<lparr>users := (users (db ?w1))
                 (room := putDoc (currentUserId ?w1) \<lparr>name = nm, joined = serverTime (db ?w1)\<rparr> (users (db ?w1) room)),
               messages := (messages (db ?w1))
                 (room := messages (db ?w1) room @
                    [\<lparr>msgId = nextId (db ?w1), msgType = Some (js ''event''), msgName = None,
                      msgText = nm @ js '' has joined the room.'', senderId = js ''system'',
                      timestamp = Some (serverTime (db ?w1))\<rparr>]),
               nextId := Suc (nextId (db ?w1))\<rparr>,
         effects := effects ?w1 @ [WriteUser room (currentUserId ?w1),
                                 AppendMessage room (nm @ js '' has joined the room.'')],
         ui := ChatUI, unsubscribeMessages := Some room, unsubscribeUsers := Some room\<rparr>"
    by (rule resume_join) (use c f s in simp_all)
  show "users (db (handleNameFormSubmit P w)) room
           = putDoc (currentUserId w) \<lparr>name = nm, joined = serverTime (db w)\<rparr> (users (db w) room)"
    and "messages (db (handleNameFormSubmit P w)) room
           = messages (db w) room @
               [\<lparr>msgId = nextId (db w), msgType = Some (js ''event''), msgName = None,
                 msgText = nm @ js '' has joined the room.'', senderId = js ''system'',
                 timestamp = Some (serverTime (db w))\<rparr>]"
    and "ui (handleNameFormSubmit P w) = ChatUI"
    and "userName (handleNameFormSubmit P w) = Some nm"
    unfolding L R by simp_all
qed

lemma name_form_rejoins:
  assumes c: "currentRoom w = Some room" "room \<noteq> []" "trim (nameInput w) = nm" "nm \<noteq> []"
    and f: "faults (db w) = []"
    and s: "scanUsers (toLowerCase P) (currentUserId w) nm (users (db w) room) = (False, Some g)"
    and m: "map_of (users (db w) room) (currentUserId w) = Some u"
  shows "users (db (handleNameFormSubmit P w)) room
           = putDoc (currentUserId w) (u\<lparr>joined := serverTime (db w)\<rparr>) (users (db w) room)"
    and "messages (db (handleNameFormSubmit P w)) = messages (db w)"
    and "ui (handleNameFormSubmit P w) = ChatUI"
    and "userName (handleNameFormSubmit P w) = Some nm"
proof -
  let ?w1 = "w\<lparr>nameError := None, ui := LoadingUI, effects := effects w @ [ListUsers room]\<rparr>"
  have L: "handleNameFormSubmit P w = handleNameFormSubmit_resume P nm (Inr (users (db w) room)) ?w1"
    using name_form_listed [of w room P] c f by simp
  have R: "handleNameFormSubmit_resume P nm (Inr (users (db w) room)) ?w1
     = ?w1\<lparr>userName := Some nm,
         db := (db ?w1)\<lparr>users := (users (db ?w1))
                 (room := putDoc (currentUserId ?w1) (u\<lparr>joined := serverTime (db ?w1)\<rparr>) (users (db ?w1) room))\<rparr>,
         effects := effects ?w1 @ [TouchUser room (currentUserId ?w1)],
         ui := ChatUI, unsubscribeMessages := Some room, unsubscribeUsers := Some room\<rparr>"
    by (rule resume_rejoin [where g = g]) (use c f s m in simp_all)
  show "users (db (handleNameFormSubmit P w)) room
           = putDoc (currentUserId w) (u\<lparr>joined := serverTime (db w)\<rparr>) (users (db w) room)"
    and "messages (db (handleNameFormSubmit P w)) = messages (db w)"
    and "ui (handleNameFormSubmit P w) = ChatUI"
    and "userName (handleNameFormSubmit P w) = Some nm"
    unfolding L R by simp_all
qed

text \<open>
  Claim C1, as the program has it. Let the store answer every call and let no other
  identity hold the submitted name. If this client's participant record has the submitted
  name (compared after lower-casing), the submission refreshes the joined-at time of the
  record and nothing else, and the message list of every room stays as it is: no join
  event. In every other case, that is, when there is no record for this identity or the
  record has a different name, the record is written with the submitted name and the event
  message \<open><name> has joined the room.\<close> of sender \<open>system\<close> is appended. Either way the
  client enters the chat under the submitted name.
\<close>

theorem name_form_refresh_or_join:
  assumes c: "currentRoom w = Some room" "room \<noteq> []" "trim (nameInput w) = nm" "nm \<noteq> []"
    and f: "faults (db w) = []"
    and d: "distinct (map fst (users (db w) room))"
    and n: "\<forall>(j, e) \<in> set (users (db w) room).
              j \<noteq> currentUserId w \<longrightarrow> toLowerCase P (name e) \<noteq> toLowerCase P nm"
  shows "(case map_of (users (db w) room) (currentUserId w) of
            Some u \<Rightarrow>
              if toLowerCase P (name u) = toLowerCase P nm
              then users (db (handleNameFormSubmit P w)) room
                     = putDoc (currentUserId w) (u\<lparr>joined := serverTime (db w)\<rparr>) (users (db w) room)
                   \<and> messages (db (handleNameFormSubmit P w)) = messages (db w)
              else users (db (handleNameFormSubmit P w)) room
                     = putDoc (currentUserId w) \<lparr>name = nm, joined = serverTime (db w)\<rparr> (users (db w) room)
                   \<and> messages (db (handleNameFormSubmit P w)) room
                       = messages (db w) room @
                          [\<lparr>msgId = nextId (db w), msgType = Some (js ''event''), msgName = None,
                            msgText = nm @ js '' has joined the room.'', senderId = js ''system'',
                            timestamp = Some (serverTime (db w))\<rparr>]
          | None \<Rightarrow>
              users (db (handleNameFormSubmit P w)) room
                = putDoc (currentUserId w) \<lparr>name = nm, joined = serverTime (db w)\<rparr> (users (db w) room)
              \<and> messages (db (handleNameFormSubmit P w)) room
                  = messages (db w) room @
                     [\<lparr>msgId = nextId (db w), msgType = Some (js ''event''), msgName = None,
                       msgText = nm @ js '' has joined the room.'', senderId = js ''system'',
                       timestamp = Some (serverTime (db w))\<rparr>])
         \<and> ui (handleNameFormSubmit P w) = ChatUI
         \<and> userName (handleNameFormSubmit P w) = Some nm"
proof -
  let ?us = "users (db w) room"
  let ?scan = "scanUsers (toLowerCase P) (currentUserId w) nm ?us"
  have T: "fst ?scan = False"
    using n by (auto simp: scanUsers_taken)
  have E: "snd ?scan = (case map_of ?us (currentUserId w) of
                          None \<Rightarrow> None
                        | Some u \<Rightarrow> if toLowerCase P (name u) = toLowerCase P nm
                                    then Some (currentUserId w, u) else None)"
    using d by (rule scanUsers_existing)
  show ?thesis
  proof (cases "map_of ?us (currentUserId w)")
    case None
    then have s: "?scan = (False, None)"
      using T E by (simp add: prod_eq_iff)
    show ?thesis
      using None name_form_joins [OF c f s] by simp
  next
    case (Some u)
    show ?thesis
    proof (cases "toLowerCase P (name u) = toLowerCase P nm")
      case True
      then have s: "?scan = (False, Some (currentUserId w, u))"
        using T E Some by (simp add: prod_eq_iff)
      show ?thesis
        using Some True name_form_rejoins [OF c f s Some] by simp
    next
      case False
      then have s: "?scan = (False, None)"
        using T E Some by (simp add: prod_eq_iff)
      show ?thesis
        using Some False name_form_joins [OF c f s] by simp
    qed
  qed
qed

theorem name_form_refresh_or_join_witness:
  "users (db (handleNameFormSubmit demoPlatform (atNameForm ghostStore (js ''u1'') (js '' alice '')))) (js ''team-x'')
     = [(js ''u1'', \<lparr>name = js ''Alice'', joined = \<lparr>seconds = 1700000000, nanoseconds = 0\<rparr>\<rparr>)]
   \<and> messages (db (handleNameFormSubmit demoPlatform (atNameForm ghostStore (js ''u1'') (js '' alice '')))) (js ''team-x'') = []
   \<and> ui (handleNameFormSubmit demoPlatform (atNameForm ghostStore (js ''u1'') (js '' alice ''))) = ChatUI
   \<and> userName (handleNameFormSubmit demoPlatform (atNameForm ghostStore (js ''u1'') (js '' alice ''))) = Some (js ''alice'')"
proof -
  let ?w = "atNameForm ghostStore (js ''u1'') (js '' alice '')"
  have w: "currentRoom ?w = Some (js ''team-x'')" "db ?w = ghostStore" "currentUserId ?w = js ''u1''"
    "nameInput ?w = js '' alice ''"
    by (simp_all add: atNameForm_ghost startWorld_def)
  have t: "trim (js '' alice '') = js ''alice''" "js ''alice'' \<noteq> []" "js ''team-x'' \<noteq> []"
    "toLowerASCII (js ''alice'') = js ''alice''" "toLowerASCII (js ''Alice'') = js ''alice''"
    by (simp_all add: trim_def js_def isWhiteSpace_def toLowerASCII_def)
  have f: "faults (db ?w) = []" and tr: "trim (nameInput ?w) = js ''alice''"
    by (simp_all add: w ghost_facts t)
  have d: "distinct (map fst (users (db ?w) (js ''team-x'')))"
    by (simp add: w ghost_facts)
  have n: "\<forall>(j, e) \<in> set (users (db ?w) (js ''team-x'')).
              j \<noteq> currentUserId ?w \<longrightarrow> toLowerCase demoPlatform (name e) \<noteq> toLowerCase demoPlatform (js ''alice'')"
    by (simp add: w ghost_facts)
  show ?thesis
    using name_form_refresh_or_join [OF w(1) t(3) tr t(2) f d n]
    by (simp add: w ghost_facts demoPlatform_def t)
qed

text \<open>
  The claim as stated fails where the record of this identity has another name: the
  client \<open>u1\<close>, registered as \<open>Alice\<close>, submits \<open>Bob\<close>; its record is rewritten with the
  new name and a join event is emitted.
\<close>

theorem name_form_new_name_joins_again:
  "map_of (users (db (atNameForm ghostStore (js ''u1'') (js ''Bob''))) (js ''team-x'')) (js ''u1'')
     = Some \<lparr>name = js ''Alice'', joined = \<lparr>seconds = 1650000000, nanoseconds = 0\<rparr>\<rparr>
   \<and> users (db (handleNameFormSubmit demoPlatform (atNameForm ghostStore (js ''u1'') (js ''Bob'')))) (js ''team-x'')
     = [(js ''u1'', \<lparr>name = js ''Bob'', joined = \<lparr>seconds = 1700000000, nanoseconds = 0\<rparr>\<rparr>)]
   \<and> map msgText (messages (db (handleNameFormSubmit demoPlatform (atNameForm ghostStore (js ''u1'') (js ''Bob'')))) (js ''team-x''))
     = [js ''Bob has joined the room.'']"
proof -
  let ?w = "atNameForm ghostStore (js ''u1'') (js ''Bob'')"
  have w: "currentRoom ?w = Some (js ''team-x'')" "db ?w = ghostStore" "currentUserId ?w = js ''u1''"
    "nameInput ?w = js ''Bob''"
    by (simp_all add: atNameForm_ghost startWorld_def)
  have t: "trim (js ''Bob'') = js ''Bob''" "js ''Bob'' \<noteq> []" "js ''team-x'' \<noteq> []"
    "toLowerASCII (js ''Bob'') = js ''bob''" "toLowerASCII (js ''Alice'') = js ''alice''"
    by (simp_all add: trim_def js_def isWhiteSpace_def toLowerASCII_def)
  have s: "scanUsers (toLowerCase demoPlatform) (currentUserId ?w) (js ''Bob'') (users (db ?w) (js ''team-x''))
             = (False, None)"
    by (simp add: w scanUsers_def ghost_facts demoPlatform_def t)
  have f: "faults (db ?w) = []" and tr: "trim (nameInput ?w) = js ''Bob''"
    by (simp_all add: w ghost_facts t)
  note J = name_form_joins [OF w(1) t(3) tr t(2) f s]
  show ?thesis
    unfolding J by (simp add: w ghost_facts js_append)
qed

section \<open>The client in the chat\<close>

lemma atNameForm_existing:
  "rooms d (js ''team-x'') = Some r \<Longrightarrow> faults d = [] \<Longrightarrow>
   atNameForm d uid nm
     = (startWorld d uid (js ''team-x''))
         \<lparr>currentRoom := Some (js ''team-x''), ui := NameUI, effects := [ReadRoom (js ''team-x'')],
          nameInput := nm\<rparr>"
  by (simp add: atNameForm_def showUI_def initializeAppLogic_existing)

lemma inChat_eq:
  "inChat
     = (startWorld teamStore (js ''u1'') (js ''team-x''))
         \<lparr>db := teamStore
            \<lparr>users := (users teamStore)(js ''team-x'' :=
                [(js ''u1'', \<lparr>name = js ''Alice'', joined = serverTime teamStore\<rparr>)]),
             messages := (messages teamStore)(js ''team-x'' :=
                [\<lparr>msgId = 0, msgType = Some (js ''event''), msgName = None,
                  msgText = js ''Alice has joined the room.'', senderId = js ''system'',
                  timestamp = Some (serverTime teamStore)\<rparr>]),
             nextId := 1\<rparr>,
          effects := [ReadRoom (js ''team-x''), ListUsers (js ''team-x''),
                      WriteUser (js ''team-x'') (js ''u1''),
                      AppendMessage (js ''team-x'') (js ''Alice has joined the room.'')],
          userName := Some (js ''Alice''), currentRoom := Some (js ''team-x''),
          unsubscribeMessages := Some (js ''team-x''), unsubscribeUsers := Some (js ''team-x''),
          ui := ChatUI, nameInput := js ''Alice''\<rparr>"
proof -
  let ?w = "atNameForm teamStore (js ''u1'') (js ''Alice'')"
  let ?w1 = "?w\<lparr>nameError := None, ui := LoadingUI, effects := effects ?w @ [ListUsers (js ''team-x'')]\<rparr>"
  note a = atNameForm_existing [OF team_room]
  have s: "users teamStore = (\<lambda>room. [])" "messages teamStore = (\<lambda>room. [])" "nextId teamStore = 0"
    by (simp_all add: teamStore_def emptyStore_def)
  have t: "trim (js ''Alice'') = js ''Alice''"
    by (simp add: trim_def js_def isWhiteSpace_def)
  have L: "handleNameFormSubmit demoPlatform ?w
             = handleNameFormSubmit_resume demoPlatform (js ''Alice'') (Inr (users (db ?w) (js ''team-x''))) ?w1"
    using name_form_listed [of ?w "js ''team-x''" demoPlatform]
    by (simp add: a startWorld_def team_room t)
  have R: "handleNameFormSubmit_resume demoPlatform (js ''Alice'') (Inr (users (db ?w) (js ''team-x''))) ?w1
     = ?w1\<lparr>userName := Some (js ''Alice''),
         db := (db ?w1)\<lparr>users := (users (db ?w1))
                 (js ''team-x'' := putDoc (currentUserId ?w1) \<lparr>name = js ''Alice'', joined = serverTime (db ?w1)\<rparr>
                     (users (db ?w1) (js ''team-x''))),
               messages := (messages (db ?w1))
                 (js ''team-x'' := messages (db ?w1) (js ''team-x'') @
                    [\<lparr>msgId = nextId (db ?w1), msgType = Some (js ''event''), msgName = None,
                      msgText = js ''Alice'' @ js '' has joined the room.'', senderId = js ''system'',
                      timestamp = Some (serverTime (db ?w1))\<rparr>]),
               nextId := Suc (nextId (db ?w1))\<rparr>,
         effects := effects ?w1 @ [WriteUser (js ''team-x'') (currentUserId ?w1),
                                 AppendMessage (js ''team-x'') (js ''Alice'' @ js '' has joined the room.'')],
         ui := ChatUI, unsubscribeMessages := Some (js ''team-x''), unsubscribeUsers := Some (js ''team-x'')\<rparr>"
    by (rule resume_join) (simp_all add: a startWorld_def team_room s scanUsers_def)
  show ?thesis
    unfolding inChat_def L R by (simp add: a startWorld_def s js_append)
qed

lemma inChat_facts:
  "currentRoom inChat = Some (js ''team-x'')" "userName inChat = Some (js ''Alice'')"
  "currentUserId inChat = js ''u1''" "faults (db inChat) = []" "hash inChat = js ''team-x''"
  "\<not> isNavigating inChat" "hashchangeQueued inChat = 0" "messageList inChat = []"
  "messageInput inChat = []" "ui inChat = ChatUI"
  "roomError inChat = None" "passwordError inChat = None" "nameError inChat = None"
  "users (db inChat) (js ''team-x'')
     = [(js ''u1'', \<lparr>name = js ''Alice'', joined = \<lparr>seconds = 1700000000, nanoseconds = 0\<rparr>\<rparr>)]"
  "messages (db inChat) (js ''team-x'')
     = [\<lparr>msgId = 0, msgType = Some (js ''event''), msgName = None,
         msgText = js ''Alice has joined the room.'', senderId = js ''system'',
         timestamp = Some \<lparr>seconds = 1700000000, nanoseconds = 0\<rparr>\<rparr>]"
  "nextId (db inChat) = 1" "serverTime (db inChat) = \<lparr>seconds = 1700000000, nanoseconds = 0\<rparr>"
  "effects inChat = [ReadRoom (js ''team-x''), ListUsers (js ''team-x''),
                     WriteUser (js ''team-x'') (js ''u1''),
                     AppendMessage (js ''team-x'') (js ''Alice has joined the room.'')]"
  by (simp_all add: inChat_eq startWorld_def teamStore_def emptyStore_def)

section \<open>The order of rendered messages\<close>

lemma insertBy_insort_key:
  "insertBy (\<lambda>a b. f a - f b) x xs = insort_key f x xs"
  by (induction xs) auto

lemma jsSort_sort_key: "jsSort (\<lambda>a b. f a - f b) xs = sort_key f xs"
proof -
  have "insertBy (\<lambda>a b. f a - f b) = insort_key f"
    by (intro ext) (rule insertBy_insort_key)
  then show ?thesis
    by (simp add: jsSort_def sort_key_def)
qed

lemma jsSort_compareMessages: "jsSort compareMessages ms = sort_key secondsOrZero ms"
proof -
  have h: "compareMessages = (\<lambda>a b. secondsOrZero a - secondsOrZero b)"
    by (intro ext) (simp add: compareMessages_def)
  show ?thesis
    unfolding h by (rule jsSort_sort_key)
qed

lemma processChange_Added:
  "processChange (Added, m) (acc, w)
     = (acc @ [m],
        if senderId m \<noteq> currentUserId w \<and> \<not> isWindowActive w
        then w\<lparr>unreadMessages := Suc (unreadMessages w)\<rparr> else w)"
  by (simp add: processChange_def)

lemma fold_added:
  "fst (fold processChange (map (Pair Added) ms) (acc, w)) = acc @ ms
   \<and> messageList (snd (fold processChange (map (Pair Added) ms) (acc, w))) = messageList w
   \<and> currentUserId (snd (fold processChange (map (Pair Added) ms) (acc, w))) = currentUserId w"
  by (induction ms arbitrary: acc w) (simp_all add: processChange_Added)

lemma snapshot_added:
  "messageList (onMessagesSnapshot (map (Pair Added) ms) w)
     = messageList w @ map (renderElement (currentUserId w)) (sort_key secondsOrZero ms)"
  using fold_added [of ms "[]" w]
  by (cases "fold processChange (map (Pair Added) ms) ([], w)")
     (simp add: onMessagesSnapshot_def renderMessages_def jsSort_compareMessages)

lemma dataId_renderElement: "dataId (renderElement uid m) = msgId m"
  by (simp add: renderElement_def)

text \<open>
  What the sort of the callback gives: the added messages of a snapshot are rendered in a
  permutation of their delivery order that ascends in the whole seconds of the timestamps
  (0 for a pending timestamp), and messages with the same seconds keep their delivery
  order.
\<close>

lemma added_messages_sorted_by_seconds:
  "messageList w = [] \<Longrightarrow>
   \<exists>sorted_ms. map dataId (messageList (onMessagesSnapshot (map (Pair Added) ms) w)) = map msgId sorted_ms
     \<and> mset sorted_ms = mset ms \<and> sorted (map secondsOrZero sorted_ms)
     \<and> (\<forall>k. filter (\<lambda>m. secondsOrZero m = k) sorted_ms = filter (\<lambda>m. secondsOrZero m = k) ms)"
  by (rule exI [of _ "sort_key secondsOrZero ms"])
     (simp add: snapshot_added dataId_renderElement comp_def sort_key_stable)

text \<open>
  Claim C2 says that the added messages of a batch are rendered in ascending order of
  their timestamps whatever the delivery order. The comparison function reads the
  \<open>seconds\<close> of a timestamp only. Two messages stamped within the same second, delivered
  later one first, are rendered in that order: the later message stands above the earlier.
\<close>

theorem added_messages_of_one_second_keep_delivery_order:
  "map dataId (messageList (onMessagesSnapshot [(Added, lateMessage), (Added, earlyMessage)] inChat))
     = [msgId lateMessage, msgId earlyMessage]
   \<and> timestamp earlyMessage = Some \<lparr>seconds = 1700000100, nanoseconds = 200000000\<rparr>
   \<and> timestamp lateMessage = Some \<lparr>seconds = 1700000100, nanoseconds = 800000000\<rparr>
   \<and> timestampLess \<lparr>seconds = 1700000100, nanoseconds = 200000000\<rparr>
        \<lparr>seconds = 1700000100, nanoseconds = 800000000\<rparr>"
proof -
  have m: "messageList inChat = []"
    by (simp add: inChat_eq startWorld_def)
  have k: "secondsOrZero lateMessage = 1700000100" "secondsOrZero earlyMessage = 1700000100"
    by (simp_all add: secondsOrZero_def lateMessage_def earlyMessage_def)
  have "messageList (onMessagesSnapshot (map (Pair Added) [lateMessage, earlyMessage]) inChat)
          = map (renderElement (currentUserId inChat)) [lateMessage, earlyMessage]"
    unfolding snapshot_added by (simp add: m k)
  then show ?thesis
    by (simp add: dataId_renderElement timestampLess_def) (simp add: lateMessage_def earlyMessage_def)
qed

section \<open>Leaving the room\<close>

lemma leave_room_ok:
  assumes "currentRoom w = Some room" "userName w = Some nm" "room \<noteq> []" "nm \<noteq> []"
    "currentUserId w \<noteq> []" "faults (db w) = []"
  shows "handleLeaveRoom w
     = w\<lparr>db := (db w)
            \<lparr>messages := (messages (db w))(room := messages (db w) room @
                [\<lparr>msgId = nextId (db w), msgType = Some (js ''event''), msgName = None,
                  msgText = nm @ js '' has left the room.'', senderId = js ''system'',
                  timestamp = Some (serverTime (db w))\<rparr>]),
             nextId := Suc (nextId (db w)),
             users := (users (db w))(room := filter (\<lambda>(k, u). k \<noteq> currentUserId w) (users (db w) room))\<rparr>,
          effects := effects w @ [AppendMessage room (nm @ js '' has left the room.''),
                                  RemoveUser room (currentUserId w), AssignHash []],
          hash := [],
          hashchangeQueued := (if hash w = [] then hashchangeQueued w else Suc (hashchangeQueued w))\<rparr>"
  using assms
  by (simp add: handleLeaveRoom_def call_def addMessageDoc_def deleteUserDoc_def nextFault_def
      setHash_def Let_def)

lemma leave_room_append_rejected:
  assumes "currentRoom w = Some room" "userName w = Some nm" "room \<noteq> []" "nm \<noteq> []"
    "currentUserId w \<noteq> []"
  shows "handleLeaveRoom (withFaults (True # fs) w)
     = (withFaults fs w)
         \<lparr>effects := effects w @ [AppendMessage room (nm @ js '' has left the room.''), AssignHash []],
          hash := [],
          hashchangeQueued := (if hash w = [] then hashchangeQueued w else Suc (hashchangeQueued w))\<rparr>"
  using assms
  by (simp add: handleLeaveRoom_def call_def addMessageDoc_def nextFault_def
      setHash_def Let_def withFaults_def)

lemma leave_room_remove_rejected:
  assumes "currentRoom w = Some room" "userName w = Some nm" "room \<noteq> []" "nm \<noteq> []"
    "currentUserId w \<noteq> []"
  shows "handleLeaveRoom (withFaults (False # True # fs) w)
     = (withFaults fs w)
         \<lparr>db := (db (withFaults fs w))
            \<lparr>messages := (messages (db w))(room := messages (db w) room @
                [\<lparr>msgId = nextId (db w), msgType = Some (js ''event''), msgName = None,
                  msgText = nm @ js '' has left the room.'', senderId = js ''system'',
                  timestamp = Some (serverTime (db w))\<rparr>]),
             nextId := Suc (nextId (db w))\<rparr>,
          effects := effects w @ [AppendMessage room (nm @ js '' has left the room.''),
                                  RemoveUser room (currentUserId w), AssignHash []],
          hash := [],
          hashchangeQueued := (if hash w = [] then hashchangeQueued w else Suc (hashchangeQueued w))\<rparr>"
  using assms
  by (simp add: handleLeaveRoom_def call_def addMessageDoc_def deleteUserDoc_def nextFault_def
      setHash_def Let_def withFaults_def)

lemma teardown:
  "hashchangeQueued w = Suc n \<Longrightarrow> \<not> isNavigating w \<Longrightarrow> hash w = [] \<Longrightarrow>
   dispatchHashChange w
     = w\<lparr>hashchangeQueued := n, unsubscribeMessages := None, unsubscribeUsers := None,
          currentRoom := None, userName := None, ui := RoomUI, roomInput := [],
          roomPasswordInput := [], passwordVerifyInput := [], nameInput := []\<rparr>"
  by (simp add: dispatchHashChange_def handleHashChange_def cleanupSubscriptions_def showUI_def Let_def)

text \<open>
  Claim C6, as the program has it. Leaving from the chat first appends the event message
  \<open><name> has left the room.\<close> of sender \<open>system\<close>, then removes this client's participant
  record, then assigns the empty fragment; the \<open>hashchange\<close> event this queues tears the
  session down: the subscriptions are stopped, room and name are forgotten and the room
  selection is shown. When the store rejects the message, the record is not removed and
  the empty fragment is assigned all the same.
\<close>

theorem leave_order:
  assumes c: "currentRoom w = Some room" "userName w = Some nm" "room \<noteq> []" "nm \<noteq> []"
    "currentUserId w \<noteq> []"
    and f: "faults (db w) = []"
    and h: "hash w \<noteq> []" "\<not> isNavigating w" "hashchangeQueued w = 0"
  shows "effects (handleLeaveRoom w)
           = effects w @ [AppendMessage room (nm @ js '' has left the room.''),
                          RemoveUser room (currentUserId w), AssignHash []]
     \<and> messages (db (handleLeaveRoom w)) room
           = messages (db w) room @
               [\<lparr>msgId = nextId (db w), msgType = Some (js ''event''), msgName = None,
                 msgText = nm @ js '' has left the room.'', senderId = js ''system'',
                 timestamp = Some (serverTime (db w))\<rparr>]
     \<and> users (db (handleLeaveRoom w)) room
           = filter (\<lambda>(k, u). k \<noteq> currentUserId w) (users (db w) room)
     \<and> hash (handleLeaveRoom w) = [] \<and> hashchangeQueued (handleLeaveRoom w) = 1
     \<and> ui (dispatchHashChange (handleLeaveRoom w)) = RoomUI
     \<and> currentRoom (dispatchHashChange (handleLeaveRoom w)) = None
     \<and> userName (dispatchHashChange (handleLeaveRoom w)) = None
     \<and> unsubscribeMessages (dispatchHashChange (handleLeaveRoom w)) = None
     \<and> unsubscribeUsers (dispatchHashChange (handleLeaveRoom w)) = None
     \<and> effects (handleLeaveRoom (withFaults (True # fs) w))
           = effects w @ [AppendMessage room (nm @ js '' has left the room.''), AssignHash []]
     \<and> users (db (handleLeaveRoom (withFaults (True # fs) w))) = users (db w)"
proof -
  note L = leave_room_ok [OF c f]
  have q: "hashchangeQueued (handleLeaveRoom w) = Suc 0" "\<not> isNavigating (handleLeaveRoom w)"
    "hash (handleLeaveRoom w) = []"
    unfolding L using h by simp_all
  note T = teardown [OF q]
  show ?thesis
    unfolding T leave_room_append_rejected [OF c]
    unfolding L using h by simp
qed

theorem leave_order_witness:
  "effects (handleLeaveRoom inChat)
     = effects inChat @ [AppendMessage (js ''team-x'') (js ''Alice has left the room.''),
                         RemoveUser (js ''team-x'') (js ''u1''), AssignHash []]
   \<and> map msgText (messages (db (handleLeaveRoom inChat)) (js ''team-x''))
     = [js ''Alice has joined the room.'', js ''Alice has left the room.'']
   \<and> users (db (handleLeaveRoom inChat)) (js ''team-x'') = []
   \<and> ui (dispatchHashChange (handleLeaveRoom inChat)) = RoomUI
   \<and> currentRoom (dispatchHashChange (handleLeaveRoom inChat)) = None
   \<and> unsubscribeMessages (dispatchHashChange (handleLeaveRoom inChat)) = None"
proof -
  have n: "js ''team-x'' \<noteq> []" "js ''Alice'' \<noteq> []" "js ''u1'' \<noteq> []"
    by simp_all
  show ?thesis
    using leave_order [of inChat "js ''team-x''" "js ''Alice''", OF inChat_facts(1,2) n(1,2)]
    by (simp add: inChat_facts js_append)
qed

text \<open>
  The order of the claim, record first and message second, is not the order of the
  program: the recorded calls of a leave are the append, then the removal, then the
  assignment of the fragment; and when the store rejects the second call it is the
  message that has been written and the record that is still there.
\<close>

theorem leave_appends_before_removing:
  "drop 4 (effects (handleLeaveRoom inChat))
     = [AppendMessage (js ''team-x'') (js ''Alice has left the room.''),
        RemoveUser (js ''team-x'') (js ''u1''), AssignHash []]
   \<and> drop 4 (effects (handleLeaveRoom inChat))
     \<noteq> [RemoveUser (js ''team-x'') (js ''u1''),
        AppendMessage (js ''team-x'') (js ''Alice has left the room.''), AssignHash []]
   \<and> map msgText (messages (db (handleLeaveRoom (withFaults [False, True] inChat))) (js ''team-x''))
     = [js ''Alice has joined the room.'', js ''Alice has left the room.'']
   \<and> map fst (users (db (handleLeaveRoom (withFaults [False, True] inChat))) (js ''team-x'')) = [js ''u1'']"
proof -
  have n: "js ''team-x'' \<noteq> []" "js ''Alice'' \<noteq> []" "currentUserId inChat \<noteq> []"
    by (simp_all add: inChat_facts)
  show ?thesis
    unfolding leave_room_ok [OF inChat_facts(1,2) n inChat_facts(4)]
      leave_room_remove_rejected [OF inChat_facts(1,2) n]
    by (simp add: inChat_facts js_append)
qed

section \<open>Sending a message\<close>

lemma message_form_begin:
  assumes "currentRoom w = Some room" "userName w = Some nm" "room \<noteq> []" "nm \<noteq> []"
    "currentUserId w \<noteq> []" "trim (messageInput w) = txt" "txt \<noteq> []"
  shows "handleMessageFormSubmit_begin w
           = (w\<lparr>messageInput := []\<rparr>, Some (room, nm, txt, currentUserId w))"
  using assms by (simp add: handleMessageFormSubmit_begin_def Let_def)

lemma message_form_rejected:
  assumes "currentRoom w = Some room" "userName w = Some nm" "room \<noteq> []" "nm \<noteq> []"
    "currentUserId w \<noteq> []" "trim (messageInput w) = txt" "txt \<noteq> []"
  shows "handleMessageFormSubmit (withFaults (True # fs) w)
           = (withFaults fs w)\<lparr>messageInput := txt, effects := effects w @ [AppendMessage room txt]\<rparr>"
  using assms
  by (simp add: handleMessageFormSubmit_def handleMessageFormSubmit_begin_def
      handleMessageFormSubmit_resume_def Let_def call_def addMessageDoc_def nextFault_def withFaults_def)

lemma message_form_written:
  assumes "currentRoom w = Some room" "userName w = Some nm" "room \<noteq> []" "nm \<noteq> []"
    "currentUserId w \<noteq> []" "trim (messageInput w) = txt" "txt \<noteq> []" "faults (db w) = []"
  shows "handleMessageFormSubmit w
           = w\<lparr>messageInput := [],
               db := (db w)\<lparr>messages := (messages (db w))(room := messages (db w) room @
                         [\<lparr>msgId = nextId (db w), msgType = None, msgName = Some nm, msgText = txt,
                           senderId = currentUserId w, timestamp = Some (serverTime (db w))\<rparr>]),
                       nextId := Suc (nextId (db w))\<rparr>,
               effects := effects w @ [AppendMessage room txt]\<rparr>"
  using assms
  by (simp add: handleMessageFormSubmit_def handleMessageFormSubmit_begin_def
      handleMessageFormSubmit_resume_def Let_def call_def addMessageDoc_def nextFault_def)

lemma message_form_renders_nothing:
  "messageList (handleMessageFormSubmit w) = messageList w"
  by (cases "faults (db w)")
     (auto simp: handleMessageFormSubmit_def handleMessageFormSubmit_begin_def
      handleMessageFormSubmit_resume_def Let_def call_def addMessageDoc_def nextFault_def
      split: option.splits bool.splits)

text \<open>
  Claim C8. A submission of the message form with a text that is not empty after
  trimming, in an active session: at the \<open>await\<close> of the write the input field is
  already empty (and the store untouched, since \<open>handleMessageFormSubmit_begin\<close> does not
  call it); when the store rejects the write, the submitted text, which is the trimmed
  content of the field, is put back into the field; when the write succeeds the field
  stays empty and the message document is in the store. In neither case does the handler
  add an element to the rendered message list.
\<close>

theorem message_send:
  assumes c: "currentRoom w = Some room" "userName w = Some nm" "room \<noteq> []" "nm \<noteq> []"
    "currentUserId w \<noteq> []" "trim (messageInput w) = txt" "txt \<noteq> []"
  shows "handleMessageFormSubmit_begin w
           = (w\<lparr>messageInput := []\<rparr>, Some (room, nm, txt, currentUserId w))
     \<and> messageInput (handleMessageFormSubmit (withFaults (True # fs) w)) = txt
     \<and> messages (db (handleMessageFormSubmit (withFaults (True # fs) w))) = messages (db w)
     \<and> messageList (handleMessageFormSubmit (withFaults (True # fs) w)) = messageList w
     \<and> messageInput (handleMessageFormSubmit (withFaults [] w)) = []
     \<and> messages (db (handleMessageFormSubmit (withFaults [] w))) room
          = messages (db w) room @
              [\<lparr>msgId = nextId (db w), msgType = None, msgName = Some nm, msgText = txt,
                senderId = currentUserId w, timestamp = Some (serverTime (db w))\<rparr>]
     \<and> messageList (handleMessageFormSubmit (withFaults [] w)) = messageList w"
proof -
  have c': "currentRoom (withFaults [] w) = Some room" "userName (withFaults [] w) = Some nm"
    "currentUserId (withFaults [] w) \<noteq> []" "trim (messageInput (withFaults [] w)) = txt"
    "faults (db (withFaults [] w)) = []"
    using c by simp_all
  show ?thesis
    unfolding message_form_begin [OF c] message_form_rejected [OF c]
      message_form_written [OF c'(1,2) c(3,4) c'(3,4) c(7) c'(5)]
    by simp
qed

theorem message_send_witness:
  "messageInput (fst (handleMessageFormSubmit_begin (inChat\<lparr>messageInput := js '' hello ''\<rparr>))) = []
   \<and> messages (db (fst (handleMessageFormSubmit_begin (inChat\<lparr>messageInput := js '' hello ''\<rparr>))))
        = messages (db inChat)
   \<and> messageInput (handleMessageFormSubmit (withFaults [True] (inChat\<lparr>messageInput := js '' hello ''\<rparr>)))
        = js ''hello''
   \<and> messageList (handleMessageFormSubmit (withFaults [True] (inChat\<lparr>messageInput := js '' hello ''\<rparr>))) = []
   \<and> messageInput (handleMessageFormSubmit (withFaults [] (inChat\<lparr>messageInput := js '' hello ''\<rparr>))) = []
   \<and> map msgText (messages (db (handleMessageFormSubmit (withFaults [] (inChat\<lparr>messageInput := js '' hello ''\<rparr>))))
        (js ''team-x''))
        = [js ''Alice has joined the room.'', js ''hello'']
   \<and> messageList (handleMessageFormSubmit (withFaults [] (inChat\<lparr>messageInput := js '' hello ''\<rparr>))) = []"
proof -
  let ?w = "inChat\<lparr>messageInput := js '' hello ''\<rparr>"
  have t: "trim (messageInput ?w) = js ''hello''"
    by (simp add: trim_def js_def isWhiteSpace_def)
  have n: "js ''team-x'' \<noteq> []" "js ''Alice'' \<noteq> []" "js ''hello'' \<noteq> []" "currentUserId ?w \<noteq> []"
    "currentRoom ?w = Some (js ''team-x'')" "userName ?w = Some (js ''Alice'')"
    by (simp_all add: inChat_facts)
  show ?thesis
    using message_send [OF n(5,6) n(1,2) n(4) t n(3), of "[]"]
    by (simp add: inChat_facts)
qed

section \<open>Deleting the history\<close>

lemma delete_chat_empty:
  assumes "currentRoom w = Some room" "room \<noteq> []" "faults (db w) = []" "messages (db w) room = []"
  shows "handleDeleteChat w = w\<lparr>ui := ChatUI, effects := effects w @ [ListMessages room]\<rparr>"
  using assms
  by (simp add: handleDeleteChat_def call_def getMessageDocs_def nextFault_def showUI_def)

lemma filter_own_ids: "filter (\<lambda>m. msgId m \<notin> msgId ` set ms) ms = []"
  by (simp add: filter_empty_conv)

lemma delete_chat_ok:
  assumes "currentRoom w = Some room" "room \<noteq> []" "faults (db w) = []" "messages (db w) room \<noteq> []"
  shows "handleDeleteChat w
     = w\<lparr>ui := ChatUI, messageList := [],
         db := (db w)\<lparr>messages := (messages (db w))(room :=
                   [\<lparr>msgId = nextId (db w), msgType = Some (js ''event''), msgName = None,
                     msgText = template (userName w) @ js '' cleared the chat history.'',
                     senderId = js ''system'', timestamp = Some (serverTime (db w))\<rparr>]),
                 nextId := Suc (nextId (db w))\<rparr>,
         effects := effects w @ [ListMessages room, DeleteMessages room,
                     AppendMessage room (template (userName w) @ js '' cleared the chat history.'')]\<rparr>"
  using assms
  by (simp add: handleDeleteChat_def call_def getMessageDocs_def commitDeleteBatch_def
      addMessageDoc_def nextFault_def showUI_def filter_own_ids)

lemma delete_chat_commit_rejected:
  assumes "currentRoom w = Some room" "room \<noteq> []" "messages (db w) room \<noteq> []"
  shows "handleDeleteChat (withFaults (False # True # fs) w)
     = (withFaults fs w)\<lparr>ui := ChatUI, effects := effects w @ [ListMessages room, DeleteMessages room]\<rparr>"
  using assms
  by (simp add: handleDeleteChat_def call_def getMessageDocs_def commitDeleteBatch_def
      nextFault_def showUI_def withFaults_def)

lemma delete_chat_list_rejected:
  assumes "currentRoom w = Some room" "room \<noteq> []"
  shows "handleDeleteChat (withFaults (True # fs) w)
     = (withFaults fs w)\<lparr>ui := ChatUI, effects := effects w @ [ListMessages room]\<rparr>"
  using assms
  by (simp add: handleDeleteChat_def call_def getMessageDocs_def
      nextFault_def showUI_def withFaults_def)

lemma delete_chat_append_rejected:
  assumes "currentRoom w = Some room" "room \<noteq> []" "messages (db w) room \<noteq> []"
  shows "handleDeleteChat (withFaults (False # False # True # fs) w)
     = (withFaults fs w)\<lparr>ui := ChatUI, messageList := [],
         db := (db (withFaults fs w))\<lparr>messages := (messages (db w))(room := [])\<rparr>,
         effects := effects w @ [ListMessages room, DeleteMessages room,
                     AppendMessage room (template (userName w) @ js '' cleared the chat history.'')]\<rparr>"
  using assms
  by (simp add: handleDeleteChat_def call_def getMessageDocs_def commitDeleteBatch_def
      addMessageDoc_def nextFault_def showUI_def withFaults_def filter_own_ids)

lemma processChange_Removed:
  "processChange (Removed, m) (acc, w) = (acc, w\<lparr>messageList := removeElement (msgId m) (messageList w)\<rparr>)"
  by (simp add: processChange_def)

lemma messageList_empty_update: "messageList w = [] \<Longrightarrow> w\<lparr>messageList := []\<rparr> = w"
  by (cases w) simp

lemma fold_removed_empty:
  "messageList w = [] \<Longrightarrow> fold processChange (map (Pair Removed) ms) (acc, w) = (acc, w)"
  by (induction ms) (simp_all add: processChange_Removed messageList_empty_update)

lemma snapshot_removed_empty:
  "messageList w = [] \<Longrightarrow> onMessagesSnapshot (map (Pair Removed) ms) w = w"
  by (simp add: onMessagesSnapshot_def fold_removed_empty renderMessages_def jsSort_def)

lemma quietChat_facts:
  "currentRoom quietChat = Some (js ''team-x'')" "faults (db quietChat) = []"
  "messages (db quietChat) (js ''team-x'') = []" "messageList quietChat = []"
  "ui quietChat = ChatUI"
proof -
  have n: "js ''team-x'' \<noteq> []" "messages (db inChat) (js ''team-x'') \<noteq> []"
    by (simp_all add: inChat_facts)
  show "currentRoom quietChat = Some (js ''team-x'')" "faults (db quietChat) = []"
    "messages (db quietChat) (js ''team-x'') = []" "messageList quietChat = []"
    "ui quietChat = ChatUI"
    unfolding quietChat_def delete_chat_append_rejected [OF inChat_facts(1) n]
    by (simp_all add: inChat_facts)
qed

text \<open>
  Claim C4, as the program has it, for a store that answers every call. When the room has
  messages, the deletion removes all the listed messages in one batch, empties the
  rendered list at once, and then appends one event message \<open><name> cleared the chat
  history.\<close>, which is then the only message of the room; the echo of the subscription,
  the removals and then the added event, renders exactly that event. The batch is all or
  nothing: when its commit is rejected, no message is deleted and the rendered list is
  untouched. When the room has no messages, the operation ends after the listing: nothing
  is deleted, nothing is rendered or cleared, and no event is appended. In every case the
  chat is shown again.
\<close>

theorem delete_all:
  assumes c: "currentRoom w = Some room" "room \<noteq> []" and f: "faults (db w) = []"
  shows "(if messages (db w) room = []
          then messages (db (handleDeleteChat w)) = messages (db w)
               \<and> messageList (handleDeleteChat w) = messageList w
               \<and> effects (handleDeleteChat w) = effects w @ [ListMessages room]
          else messages (db (handleDeleteChat w)) room
                 = [\<lparr>msgId = nextId (db w), msgType = Some (js ''event''), msgName = None,
                     msgText = template (userName w) @ js '' cleared the chat history.'',
                     senderId = js ''system'', timestamp = Some (serverTime (db w))\<rparr>]
               \<and> messageList (handleDeleteChat w) = []
               \<and> effects (handleDeleteChat w)
                    = effects w @ [ListMessages room, DeleteMessages room,
                        AppendMessage room (template (userName w) @ js '' cleared the chat history.'')]
               \<and> messageList (onMessagesSnapshot (map (Pair Added) (messages (db (handleDeleteChat w)) room))
                    (onMessagesSnapshot (map (Pair Removed) (messages (db w) room)) (handleDeleteChat w)))
                    = [renderElement (currentUserId w)
                        \<lparr>msgId = nextId (db w), msgType = Some (js ''event''), msgName = None,
                         msgText = template (userName w) @ js '' cleared the chat history.'',
                         senderId = js ''system'', timestamp = Some (serverTime (db w))\<rparr>]
               \<and> messages (db (handleDeleteChat (withFaults (False # True # fs) w))) = messages (db w)
               \<and> messageList (handleDeleteChat (withFaults (False # True # fs) w)) = messageList w)
         \<and> ui (handleDeleteChat w) = ChatUI"
proof (cases "messages (db w) room = []")
  case True
  show ?thesis
    unfolding delete_chat_empty [OF c f True] using True by simp
next
  case False
  note D = delete_chat_ok [OF c f False]
  have m: "messageList (handleDeleteChat w) = []"
    unfolding D by simp
  show ?thesis
    unfolding snapshot_removed_empty [OF m] snapshot_added delete_chat_commit_rejected [OF c False]
    unfolding D using False by simp
qed

theorem delete_all_witness:
  "map msgText (messages (db (handleDeleteChat inChat)) (js ''team-x''))
     = [js ''Alice cleared the chat history.'']
   \<and> messageList (handleDeleteChat inChat) = []
   \<and> map shownText (messageList (onMessagesSnapshot (map (Pair Added) (messages (db (handleDeleteChat inChat)) (js ''team-x'')))
                    (onMessagesSnapshot (map (Pair Removed) (messages (db inChat) (js ''team-x''))) (handleDeleteChat inChat))))
     = [js ''Alice cleared the chat history.'']
   \<and> map msgText (messages (db (handleDeleteChat (withFaults [False, True] inChat))) (js ''team-x''))
     = [js ''Alice has joined the room.'']
   \<and> ui (handleDeleteChat inChat) = ChatUI"
proof -
  have n: "js ''team-x'' \<noteq> []"
    by simp
  show ?thesis
    using delete_all [OF inChat_facts(1) n inChat_facts(4), of "[]"]
    by (clarsimp simp: inChat_facts template_def js_append renderElement_def)
qed

text \<open>
  The claim as stated fails in a room without messages: the handler returns after the
  listing, and the store holds no \<open>cleared\<close> event afterwards.
\<close>

theorem delete_all_of_empty_room_announces_nothing:
  "messages (db quietChat) (js ''team-x'') = []
   \<and> messages (db (handleDeleteChat quietChat)) (js ''team-x'') = []
   \<and> effects (handleDeleteChat quietChat) = effects quietChat @ [ListMessages (js ''team-x'')]
   \<and> ui (handleDeleteChat quietChat) = ChatUI"
proof -
  have n: "js ''team-x'' \<noteq> []"
    by simp
  show ?thesis
    unfolding delete_chat_empty [OF quietChat_facts(1) n quietChat_facts(2,3)]
    by (simp add: quietChat_facts)
qed

section \<open>Results that arrive after a navigation\<close>

lemma vault_rooms:
  "rooms vaultStore (js ''team-x'')
     = Some \<lparr>passwordHash = hashPassword demoPlatform (js ''hunter2''),
             createdAt = \<lparr>seconds = 1600000000, nanoseconds = 0\<rparr>\<rparr>"
  "rooms vaultStore (js ''vault'')
     = Some \<lparr>passwordHash = hashPassword demoPlatform (js ''s3cret''),
             createdAt = \<lparr>seconds = 1610000000, nanoseconds = 0\<rparr>\<rparr>"
  "faults vaultStore = []"
  by (simp_all add: vaultStore_def teamStore_def emptyStore_def)

lemma vaultVisitor_eq:
  "vaultVisitor
     = (startWorld vaultStore (js ''u1'') (js ''team-x''))
         \<lparr>currentRoom := Some (js ''team-x''), ui := PasswordUI, effects := [ReadRoom (js ''team-x'')],
          passwordVerifyInput := js ''hunter2''\<rparr>"
  by (simp add: vaultVisitor_def initializeAppLogic_existing [OF vault_rooms(1) vault_rooms(3)])

lemma digests_differ:
  "hashPassword demoPlatform (js ''s3cret'') \<noteq> hashPassword demoPlatform (js ''hunter2'')"
  by code_simp

lemma navigate_existing:
  "hash w \<noteq> h \<Longrightarrow> h \<noteq> [] \<Longrightarrow> \<not> isNavigating w \<Longrightarrow> faults (db w) = [] \<Longrightarrow>
   rooms (db w) h = Some d \<Longrightarrow>
   dispatchHashChange (userNavigates h w)
     = w\<lparr>hash := h, unsubscribeMessages := None, unsubscribeUsers := None, currentRoom := Some h,
          ui := PasswordUI, effects := effects w @ [ReadRoom h]\<rparr>"
  by (simp add: userNavigates_def dispatchHashChange_def handleHashChange_def
      cleanupSubscriptions_def verifyRoomExists_def verifyRoomExists_resume_def showUI_def call_def
      getRoomDoc_def nextFault_def Let_def)

lemma verifyThenNavigate_accepts:
  assumes c: "currentRoom w = Some room" "room \<noteq> []" "trim (passwordVerifyInput w) \<noteq> []"
    and f: "faults (db w) = []"
    and d: "rooms (db w) room = Some d" "passwordHash d = hashPassword P (trim (passwordVerifyInput w))"
    and n: "hash w \<noteq> h" "h \<noteq> []" "\<not> isNavigating w" "rooms (db w) h = Some d'"
  shows "ui (verifyThenNavigate P h w) = NameUI"
    and "currentRoom (verifyThenNavigate P h w) = Some h"
proof -
  let ?ph = "hashPassword P (trim (passwordVerifyInput w))"
  let ?w1 = "w\<lparr>passwordError := None, ui := LoadingUI\<rparr>"
  let ?w2 = "?w1\<lparr>effects := effects ?w1 @ [ReadRoom room]\<rparr>"
  have b: "handlePasswordVerifySubmit_begin P w = (?w1, Some (?ph, room))"
    using c by (simp add: handlePasswordVerifySubmit_begin_def Let_def showUI_def)
  have k: "call (ReadRoom room) (getRoomDoc room) ?w1 = (Inr (Some d), ?w2)"
    using f d by (simp add: call_def getRoomDoc_def nextFault_def)
  have g: "dispatchHashChange (userNavigates h ?w2)
             = ?w2\<lparr>hash := h, unsubscribeMessages := None, unsubscribeUsers := None,
                   currentRoom := Some h, ui := PasswordUI, effects := effects ?w2 @ [ReadRoom h]\<rparr>"
    by (rule navigate_existing [where d = d']) (use n f in simp_all)
  have v: "verifyThenNavigate P h w
             = handlePasswordVerifySubmit_resume ?ph (Inr (Some d))
                 (dispatchHashChange (userNavigates h ?w2))"
    by (simp add: verifyThenNavigate_def b k)
  show "ui (verifyThenNavigate P h w) = NameUI"
    and "currentRoom (verifyThenNavigate P h w) = Some h"
    unfolding v g using d by (simp_all add: handlePasswordVerifySubmit_resume_def showUI_def)
qed

text \<open>
  Claim C5, as the program has it. The code after the \<open>await\<close> of the existence check, of
  the password check and of the listing of the participants does not compare the session
  context with the one the operation was started in; it applies the result to whatever
  state is current. For every state \<open>w\<close> the client may be in when the answer arrives: an
  existing room shows the password screen, a matching digest shows the name screen, in
  both cases leaving \<open>currentRoom\<close> as it is; and a name that the listing \<open>docs\<close> (of
  whichever room it was made for) does not show as taken is written to the room that is
  current in \<open>w\<close>. So under the schedule \<open>verifyThenNavigate\<close>, where the user navigates
  from the room \<open>room\<close> to an existing room \<open>h\<close> while the password check of \<open>room\<close> is in
  flight, a password that matches \<open>room\<close> shows the name screen with \<open>h\<close> as the current
  room.
\<close>

theorem results_applied_to_current_context:
  "ui (verifyRoomExists_resume (Inr (Some d)) w) = PasswordUI
   \<and> currentRoom (verifyRoomExists_resume (Inr (Some d)) w) = currentRoom w
   \<and> ui (handlePasswordVerifySubmit_resume (passwordHash d) (Inr (Some d)) w) = NameUI
   \<and> currentRoom (handlePasswordVerifySubmit_resume (passwordHash d) (Inr (Some d)) w) = currentRoom w
   \<and> (currentRoom w = Some room \<and> room \<noteq> [] \<and> faults (db w) = []
       \<and> scanUsers (toLowerCase P) (currentUserId w) nm docs = (False, None) \<longrightarrow>
        users (db (handleNameFormSubmit_resume P nm (Inr docs) w)) room
          = putDoc (currentUserId w) \<lparr>name = nm, joined = serverTime (db w)\<rparr> (users (db w) room)
        \<and> ui (handleNameFormSubmit_resume P nm (Inr docs) w) = ChatUI)
   \<and> (currentRoom v = Some r \<and> r \<noteq> [] \<and> trim (passwordVerifyInput v) \<noteq> [] \<and> faults (db v) = []
       \<and> rooms (db v) r = Some e \<and> passwordHash e = hashPassword P (trim (passwordVerifyInput v))
       \<and> hash v \<noteq> h \<and> h \<noteq> [] \<and> \<not> isNavigating v \<and> rooms (db v) h = Some e' \<longrightarrow>
        ui (verifyThenNavigate P h v) = NameUI \<and> currentRoom (verifyThenNavigate P h v) = Some h)"
proof -
  have "currentRoom v = Some r \<Longrightarrow> r \<noteq> [] \<Longrightarrow> trim (passwordVerifyInput v) \<noteq> [] \<Longrightarrow>
        faults (db v) = [] \<Longrightarrow> rooms (db v) r = Some e \<Longrightarrow>
        passwordHash e = hashPassword P (trim (passwordVerifyInput v)) \<Longrightarrow>
        hash v \<noteq> h \<Longrightarrow> h \<noteq> [] \<Longrightarrow> \<not> isNavigating v \<Longrightarrow> rooms (db v) h = Some e' \<Longrightarrow>
        ui (verifyThenNavigate P h v) = NameUI \<and> currentRoom (verifyThenNavigate P h v) = Some h"
    using verifyThenNavigate_accepts [where w = v and room = r and P = P and d = e and h = h and d' = e']
    by blast
  moreover
  have "currentRoom w = Some room \<Longrightarrow> room \<noteq> [] \<Longrightarrow> faults (db w) = [] \<Longrightarrow>
        scanUsers (toLowerCase P) (currentUserId w) nm docs = (False, None) \<Longrightarrow>
        users (db (handleNameFormSubmit_resume P nm (Inr docs) w)) room
          = putDoc (currentUserId w) \<lparr>name = nm, joined = serverTime (db w)\<rparr> (users (db w) room)
        \<and> ui (handleNameFormSubmit_resume P nm (Inr docs) w) = ChatUI"
    by (simp add: resume_join)
  ultimately show ?thesis
    by (simp add: verifyRoomExists_resume_def handlePasswordVerifySubmit_resume_def showUI_def)
qed

theorem results_applied_to_current_context_witness:
  "ui (verifyRoomExists_resume
         (Inr (Some \<lparr>passwordHash = hashPassword demoPlatform (js ''s3cret''),
                      createdAt = \<lparr>seconds = 1610000000, nanoseconds = 0\<rparr>\<rparr>))
         (atNameForm ghostStore (js ''u2'') (js ''alice''))) = PasswordUI
   \<and> ui (handlePasswordVerifySubmit_resume (hashPassword demoPlatform (js ''s3cret''))
         (Inr (Some \<lparr>passwordHash = hashPassword demoPlatform (js ''s3cret''),
                      createdAt = \<lparr>seconds = 1610000000, nanoseconds = 0\<rparr>\<rparr>))
         (atNameForm ghostStore (js ''u2'') (js ''alice''))) = NameUI
   \<and> currentRoom (handlePasswordVerifySubmit_resume (hashPassword demoPlatform (js ''s3cret''))
         (Inr (Some \<lparr>passwordHash = hashPassword demoPlatform (js ''s3cret''),
                      createdAt = \<lparr>seconds = 1610000000, nanoseconds = 0\<rparr>\<rparr>))
         (atNameForm ghostStore (js ''u2'') (js ''alice''))) = Some (js ''team-x'')
   \<and> map (\<lambda>(i, u). (i, name u))
         (users (db (handleNameFormSubmit_resume demoPlatform (js ''alice'') (Inr [])
                       (atNameForm ghostStore (js ''u2'') (js ''alice'')))) (js ''team-x''))
       = [(js ''u1'', js ''Alice''), (js ''u2'', js ''alice'')]
   \<and> ui (handleNameFormSubmit_resume demoPlatform (js ''alice'') (Inr [])
                       (atNameForm ghostStore (js ''u2'') (js ''alice''))) = ChatUI
   \<and> ui (verifyThenNavigate demoPlatform (js ''team-x'')
           ((initializeAppLogic vaultStore (js ''u2'') (js ''vault''))\<lparr>passwordVerifyInput := js ''s3cret''\<rparr>))
       = NameUI
   \<and> currentRoom (verifyThenNavigate demoPlatform (js ''team-x'')
           ((initializeAppLogic vaultStore (js ''u2'') (js ''vault''))\<lparr>passwordVerifyInput := js ''s3cret''\<rparr>))
       = Some (js ''team-x'')"
proof -
  let ?w = "atNameForm ghostStore (js ''u2'') (js ''alice'')"
  let ?d = "\<lparr>passwordHash = hashPassword demoPlatform (js ''s3cret''),
             createdAt = \<lparr>seconds = 1610000000, nanoseconds = 0\<rparr>\<rparr>"
  let ?e' = "\<lparr>passwordHash = hashPassword demoPlatform (js ''hunter2''),
              createdAt = \<lparr>seconds = 1600000000, nanoseconds = 0\<rparr>\<rparr>"
  let ?v = "(initializeAppLogic vaultStore (js ''u2'') (js ''vault''))\<lparr>passwordVerifyInput := js ''s3cret''\<rparr>"
  have w: "currentRoom ?w = Some (js ''team-x'')" "db ?w = ghostStore" "currentUserId ?w = js ''u2''"
    by (simp_all add: atNameForm_ghost startWorld_def)
  have s: "scanUsers (toLowerCase demoPlatform) (currentUserId ?w) (js ''alice'') [] = (False, None)"
    by (simp add: scanUsers_def)
  have h: "currentRoom ?w = Some (js ''team-x'') \<and> js ''team-x'' \<noteq> [] \<and> faults (db ?w) = []
       \<and> scanUsers (toLowerCase demoPlatform) (currentUserId ?w) (js ''alice'') [] = (False, None)"
    using s by (simp add: w ghost_facts)
  have t: "trim (js ''s3cret'') = js ''s3cret''"
    by (simp add: trim_def js_def isWhiteSpace_def)
  have n: "js ''vault'' \<noteq> []"
    by simp
  have v: "currentRoom ?v = Some (js ''vault'') \<and> js ''vault'' \<noteq> [] \<and> trim (passwordVerifyInput ?v) \<noteq> []
       \<and> faults (db ?v) = [] \<and> rooms (db ?v) (js ''vault'') = Some ?d
       \<and> passwordHash ?d = hashPassword demoPlatform (trim (passwordVerifyInput ?v))
       \<and> hash ?v \<noteq> js ''team-x'' \<and> js ''team-x'' \<noteq> [] \<and> \<not> isNavigating ?v
       \<and> rooms (db ?v) (js ''team-x'') = Some ?e'"
    by (simp add: initializeAppLogic_existing [OF vault_rooms(2,3) n] startWorld_def vault_rooms t)
  note T = results_applied_to_current_context [where d = ?d and w = ?w and room = "js ''team-x''"
      and P = demoPlatform and nm = "js ''alice''" and docs = "[]" and v = ?v and r = "js ''vault''"
      and e = ?d and h = "js ''team-x''" and e' = ?e']
  have a: "ui (verifyThenNavigate demoPlatform (js ''team-x'') ?v) = NameUI
      \<and> currentRoom (verifyThenNavigate demoPlatform (js ''team-x'') ?v) = Some (js ''team-x'')"
    using T v by blast
  have b: "users (db (handleNameFormSubmit_resume demoPlatform (js ''alice'') (Inr []) ?w)) (js ''team-x'')
          = putDoc (currentUserId ?w) \<lparr>name = js ''alice'', joined = serverTime (db ?w)\<rparr>
              (users (db ?w) (js ''team-x''))
        \<and> ui (handleNameFormSubmit_resume demoPlatform (js ''alice'') (Inr []) ?w) = ChatUI"
    using T h by blast
  have c: "ui (verifyRoomExists_resume (Inr (Some ?d)) ?w) = PasswordUI
      \<and> ui (handlePasswordVerifySubmit_resume (passwordHash ?d) (Inr (Some ?d)) ?w) = NameUI
      \<and> currentRoom (handlePasswordVerifySubmit_resume (passwordHash ?d) (Inr (Some ?d)) ?w) = currentRoom ?w"
    using T by blast
  show ?thesis
    using a b c by (simp add: w ghost_facts)
qed


text \<open>
  The claim as stated fails under the schedule \<open>verifyThenNavigate\<close>: the client submits
  the password of \<open>team-x\<close> on the password screen of \<open>team-x\<close> and navigates to
  \<open>vault\<close> while the check is in flight. The answer for \<open>team-x\<close> is not discarded: it
  shows the name screen, and the current room is \<open>vault\<close>, whose digest is another.
\<close>

theorem stale_password_result_is_applied:
  "snd (handlePasswordVerifySubmit_begin demoPlatform vaultVisitor)
     = Some (hashPassword demoPlatform (js ''hunter2''), js ''team-x'')
   \<and> currentRoom (verifyThenNavigate demoPlatform (js ''vault'') vaultVisitor) = Some (js ''vault'')
   \<and> ui (verifyThenNavigate demoPlatform (js ''vault'') vaultVisitor) = NameUI
   \<and> map_option passwordHash (rooms (db (verifyThenNavigate demoPlatform (js ''vault'') vaultVisitor)) (js ''vault''))
       = Some (hashPassword demoPlatform (js ''s3cret''))
   \<and> hashPassword demoPlatform (js ''s3cret'') \<noteq> hashPassword demoPlatform (js ''hunter2'')"
proof -
  have t: "trim (js ''hunter2'') = js ''hunter2''"
    by (simp add: trim_def js_def isWhiteSpace_def)
  have b: "handlePasswordVerifySubmit_begin demoPlatform vaultVisitor
             = (vaultVisitor\<lparr>passwordError := None, ui := LoadingUI\<rparr>,
                Some (hashPassword demoPlatform (js ''hunter2''), js ''team-x''))"
    by (simp add: handlePasswordVerifySubmit_begin_def Let_def showUI_def vaultVisitor_eq startWorld_def t)
  let ?w1 = "vaultVisitor\<lparr>passwordError := None, ui := LoadingUI\<rparr>"
  let ?w2 = "?w1\<lparr>effects := effects ?w1 @ [ReadRoom (js ''team-x'')]\<rparr>"
  have c: "call (ReadRoom (js ''team-x'')) (getRoomDoc (js ''team-x'')) ?w1
             = (Inr (rooms vaultStore (js ''team-x'')), ?w2)"
    by (simp add: call_def getRoomDoc_def nextFault_def vaultVisitor_eq startWorld_def vault_rooms)
  have n: "dispatchHashChange (userNavigates (js ''vault'') ?w2)
             = ?w2\<lparr>hash := js ''vault'', unsubscribeMessages := None, unsubscribeUsers := None,
                   currentRoom := Some (js ''vault''), ui := PasswordUI,
                   effects := effects ?w2 @ [ReadRoom (js ''vault'')]\<rparr>"
    by (rule navigate_existing [where d = "the (rooms vaultStore (js ''vault''))"])
       (simp_all add: vaultVisitor_eq startWorld_def vault_rooms)
  have v: "verifyThenNavigate demoPlatform (js ''vault'') vaultVisitor
             = handlePasswordVerifySubmit_resume (hashPassword demoPlatform (js ''hunter2''))
                 (Inr (rooms vaultStore (js ''team-x'')))
                 (dispatchHashChange (userNavigates (js ''vault'') ?w2))"
    by (simp add: verifyThenNavigate_def b c)
  show ?thesis
    unfolding v n b
    by (simp add: handlePasswordVerifySubmit_resume_def vault_rooms showUI_def digests_differ
        vaultVisitor_eq startWorld_def)
qed

section \<open>Uniqueness of display names\<close>















section \<open>Rejections of the store\<close>

lemma navigation_read_rejected:
  "hash w \<noteq> [] \<Longrightarrow> \<not> isNavigating w \<Longrightarrow> hashchangeQueued w = 0 \<Longrightarrow>
   dispatchHashChange (handleHashChange (withFaults (True # fs) w))
     = (withFaults fs w)
         \<lparr>unsubscribeMessages := None, unsubscribeUsers := None, currentRoom := None, userName := None,
          ui := RoomUI, effects := effects w @ [ReadRoom (hash w), AssignHash []],
          roomError := Some (js ''An error occurred.''), hash := [], roomInput := [],
          roomPasswordInput := [], passwordVerifyInput := [], nameInput := []\<rparr>"
  by (simp add: dispatchHashChange_def handleHashChange_def cleanupSubscriptions_def
      verifyRoomExists_def verifyRoomExists_resume_def setHash_def showUI_def call_def
      getRoomDoc_def nextFault_def Let_def withFaults_def)

lemma navigation_never_loading:
  "ui w \<noteq> LoadingUI \<Longrightarrow> hashchangeQueued w = 0 \<Longrightarrow>
   ui (dispatchHashChange (handleHashChange w)) \<noteq> LoadingUI"
  by (cases "faults (db w)")
     (auto simp: dispatchHashChange_def handleHashChange_def cleanupSubscriptions_def
        verifyRoomExists_def verifyRoomExists_resume_def setHash_def showUI_def call_def
        getRoomDoc_def nextFault_def Let_def split: option.splits bool.splits)

lemma room_form_read_rejected:
  "normalizeRoomName (toLowerCase P) (roomInput w) = rn \<Longrightarrow> rn \<noteq> [] \<Longrightarrow>
   trim (roomPasswordInput w) \<noteq> [] \<Longrightarrow>
   handleRoomFormSubmit P (withFaults (True # fs) w)
     = (withFaults fs w)
         \<lparr>roomError := Some (js ''An error occurred. Please try again.''), ui := RoomUI,
          effects := effects w @ [ReadRoom rn]\<rparr>"
  by (simp add: handleRoomFormSubmit_def Let_def call_def getRoomDoc_def nextFault_def showUI_def
      withFaults_def)

lemma room_form_write_rejected:
  "normalizeRoomName (toLowerCase P) (roomInput w) = rn \<Longrightarrow> rn \<noteq> [] \<Longrightarrow>
   trim (roomPasswordInput w) \<noteq> [] \<Longrightarrow> rooms (db w) rn = None \<Longrightarrow>
   handleRoomFormSubmit P (withFaults (False # True # fs) w)
     = (withFaults fs w)
         \<lparr>roomError := Some (js ''An error occurred. Please try again.''), ui := RoomUI,
          effects := effects w @ [ReadRoom rn, WriteRoom rn]\<rparr>"
  by (simp add: handleRoomFormSubmit_def Let_def call_def getRoomDoc_def setRoomDoc_def nextFault_def
      showUI_def withFaults_def)

lemma room_form_never_loading:
  "ui w \<noteq> LoadingUI \<Longrightarrow> ui (handleRoomFormSubmit P w) \<noteq> LoadingUI"
  by (auto simp: handleRoomFormSubmit_def Let_def call_def showUI_def setHash_def
      split: prod.splits sum.splits option.splits)

lemma password_form_read_rejected:
  "currentRoom w = Some room \<Longrightarrow> room \<noteq> [] \<Longrightarrow> trim (passwordVerifyInput w) \<noteq> [] \<Longrightarrow>
   handlePasswordVerifySubmit P (withFaults (True # fs) w)
     = (withFaults fs w)
         \<lparr>passwordError := Some (js ''An error occurred.''), ui := PasswordUI,
          effects := effects w @ [ReadRoom room]\<rparr>"
  by (simp add: handlePasswordVerifySubmit_def handlePasswordVerifySubmit_begin_def
      handlePasswordVerifySubmit_resume_def Let_def call_def getRoomDoc_def nextFault_def showUI_def
      withFaults_def)

lemma password_form_never_loading:
  "ui w \<noteq> LoadingUI \<Longrightarrow> ui (handlePasswordVerifySubmit P w) \<noteq> LoadingUI"
  by (auto simp: handlePasswordVerifySubmit_def handlePasswordVerifySubmit_begin_def
      handlePasswordVerifySubmit_resume_def Let_def call_def showUI_def
      split: prod.splits sum.splits option.splits if_splits)

lemma delete_chat_never_loading:
  "ui w \<noteq> LoadingUI \<Longrightarrow> ui (handleDeleteChat w) \<noteq> LoadingUI"
  by (auto simp: handleDeleteChat_def call_def showUI_def
      split: prod.splits sum.splits option.splits if_splits)

lemma name_form_listed_script:
  "currentRoom w = Some room \<Longrightarrow> room \<noteq> [] \<Longrightarrow> trim (nameInput w) \<noteq> [] \<Longrightarrow>
   handleNameFormSubmit P (withFaults (False # fs) w)
     = handleNameFormSubmit_resume P (trim (nameInput w)) (Inr (users (db w) room))
         ((withFaults fs w)\<lparr>nameError := None, ui := LoadingUI, effects := effects w @ [ListUsers room]\<rparr>)"
  by (cases w) (simp add: name_form_begin call_def getUserDocs_def nextFault_def showUI_def withFaults_def)

lemma name_form_list_rejected:
  "currentRoom w = Some room \<Longrightarrow> room \<noteq> [] \<Longrightarrow> trim (nameInput w) \<noteq> [] \<Longrightarrow>
   handleNameFormSubmit P (withFaults (True # fs) w)
     = (withFaults fs w)
         \<lparr>nameError := Some (js ''An error occurred while joining.''), ui := NameUI,
          effects := effects w @ [ListUsers room]\<rparr>"
  by (simp add: name_form_begin call_def getUserDocs_def nextFault_def showUI_def withFaults_def
      handleNameFormSubmit_resume_def nameFormCatch_def)

lemma name_form_second_rejected:
  assumes c: "currentRoom w = Some room" "room \<noteq> []" "trim (nameInput w) = nm" "nm \<noteq> []"
    and s: "\<not> fst (scanUsers (toLowerCase P) (currentUserId w) nm (users (db w) room))"
  shows "ui (handleNameFormSubmit P (withFaults (False # True # fs) w)) = NameUI"
    and "nameError (handleNameFormSubmit P (withFaults (False # True # fs) w))
           = Some (js ''An error occurred while joining.'')"
    and "users (db (handleNameFormSubmit P (withFaults (False # True # fs) w))) = users (db w)"
    and "messages (db (handleNameFormSubmit P (withFaults (False # True # fs) w))) = messages (db w)"
proof -
  obtain t ex where p: "scanUsers (toLowerCase P) (currentUserId w) nm (users (db w) room) = (t, ex)"
    by (cases "scanUsers (toLowerCase P) (currentUserId w) nm (users (db w) room)")
  have t: "\<not> t" using s p by simp
  have L: "handleNameFormSubmit P (withFaults (False # True # fs) w)
     = handleNameFormSubmit_resume P nm (Inr (users (db w) room))
         ((withFaults (True # fs) w)\<lparr>nameError := None, ui := LoadingUI, effects := effects w @ [ListUsers room]\<rparr>)"
    using name_form_listed_script [where fs = "True # fs" and P = P and w = w and room = room] c by simp
  show "ui (handleNameFormSubmit P (withFaults (False # True # fs) w)) = NameUI"
    and "nameError (handleNameFormSubmit P (withFaults (False # True # fs) w))
           = Some (js ''An error occurred while joining.'')"
    and "users (db (handleNameFormSubmit P (withFaults (False # True # fs) w))) = users (db w)"
    and "messages (db (handleNameFormSubmit P (withFaults (False # True # fs) w))) = messages (db w)"
    unfolding L using p t c
    by (cases ex; simp add: handleNameFormSubmit_resume_def nameFormCatch_def showUI_def Let_def
          call_def updateUserJoined_def setUserDoc_def nextFault_def withFaults_def)+
qed

lemma name_form_append_rejected:
  assumes c: "currentRoom w = Some room" "room \<noteq> []" "trim (nameInput w) = nm" "nm \<noteq> []"
    and s: "scanUsers (toLowerCase P) (currentUserId w) nm (users (db w) room) = (False, None)"
  shows "ui (handleNameFormSubmit P (withFaults (False # False # True # fs) w)) = NameUI"
    and "nameError (handleNameFormSubmit P (withFaults (False # False # True # fs) w))
           = Some (js ''An error occurred while joining.'')"
    and "messages (db (handleNameFormSubmit P (withFaults (False # False # True # fs) w))) = messages (db w)"
proof -
  have L: "handleNameFormSubmit P (withFaults (False # False # True # fs) w)
     = handleNameFormSubmit_resume P nm (Inr (users (db w) room))
         ((withFaults (False # True # fs) w)\<lparr>nameError := None, ui := LoadingUI, effects := effects w @ [ListUsers room]\<rparr>)"
    using name_form_listed_script [where fs = "False # True # fs" and P = P and w = w and room = room] c by simp
  show "ui (handleNameFormSubmit P (withFaults (False # False # True # fs) w)) = NameUI"
    and "nameError (handleNameFormSubmit P (withFaults (False # False # True # fs) w))
           = Some (js ''An error occurred while joining.'')"
    and "messages (db (handleNameFormSubmit P (withFaults (False # False # True # fs) w))) = messages (db w)"
    unfolding L using s c
    by (simp_all add: handleNameFormSubmit_resume_def nameFormCatch_def showUI_def Let_def
          call_def addMessageDoc_def setUserDoc_def nextFault_def withFaults_def)
qed

lemma call_ui:
  "call e f w = (r, w2) \<Longrightarrow> ui w2 = ui w \<and> currentRoom w2 = currentRoom w"
  by (auto simp: call_def split: prod.splits)

lemma resume_never_loading:
  "ui (handleNameFormSubmit_resume P nm r w) \<noteq> LoadingUI"
  by (auto simp: handleNameFormSubmit_resume_def nameFormCatch_def nameFormJoined_def showUI_def
      listenForMessages_def listenForUsers_def Let_def
      split: sum.splits prod.splits option.splits bool.splits dest!: call_ui)

lemma name_form_never_loading:
  "ui w \<noteq> LoadingUI \<Longrightarrow> ui (handleNameFormSubmit P w) \<noteq> LoadingUI"
  by (auto simp: handleNameFormSubmit_def handleNameFormSubmit_begin_def Let_def resume_never_loading
      split: prod.splits option.splits if_splits)

text \<open>
  Claim C7, as the program has it. A rejection of the store is caught at every call site,
  and the handler ends on a screen other than the spinner. For a script of the store that
  rejects the first, the second or the third call of a handler: the existence check of a
  navigation shows the generic message in the room error slot and, once the queued
  \<open>hashchange\<close> event is dispatched, the room selection; the room form (reading the room,
  creating it) shows the generic message and the room selection; the password form shows
  the generic message and the password screen; the name form (listing the participants,
  touching or writing the record, appending the join event) shows the generic message and
  the name screen. The deletion of the history (listing, commit, announcement) shows the
  chat again and leaves every error slot as it was: it shows no message. Whatever the
  store rejects, none of these handlers started on a screen other than the spinner ends
  on the spinner.
\<close>

theorem store_failures_return_to_a_screen:
  "(hash w \<noteq> [] \<and> \<not> isNavigating w \<and> hashchangeQueued w = 0 \<longrightarrow>
      ui (dispatchHashChange (handleHashChange (withFaults (True # fs) w))) = RoomUI
      \<and> roomError (dispatchHashChange (handleHashChange (withFaults (True # fs) w)))
           = Some (js ''An error occurred.''))
   \<and> (normalizeRoomName (toLowerCase P) (roomInput w) \<noteq> [] \<and> trim (roomPasswordInput w) \<noteq> [] \<longrightarrow>
      ui (handleRoomFormSubmit P (withFaults (True # fs) w)) = RoomUI
      \<and> roomError (handleRoomFormSubmit P (withFaults (True # fs) w))
           = Some (js ''An error occurred. Please try again.'')
      \<and> (rooms (db w) (normalizeRoomName (toLowerCase P) (roomInput w)) = None \<longrightarrow>
            ui (handleRoomFormSubmit P (withFaults (False # True # fs) w)) = RoomUI
            \<and> roomError (handleRoomFormSubmit P (withFaults (False # True # fs) w))
                 = Some (js ''An error occurred. Please try again.'')))
   \<and> (currentRoom w = Some room \<and> room \<noteq> [] \<and> trim (passwordVerifyInput w) \<noteq> [] \<longrightarrow>
      ui (handlePasswordVerifySubmit P (withFaults (True # fs) w)) = PasswordUI
      \<and> passwordError (handlePasswordVerifySubmit P (withFaults (True # fs) w))
           = Some (js ''An error occurred.''))
   \<and> (currentRoom w = Some room \<and> room \<noteq> [] \<and> trim (nameInput w) \<noteq> [] \<longrightarrow>
      ui (handleNameFormSubmit P (withFaults (True # fs) w)) = NameUI
      \<and> nameError (handleNameFormSubmit P (withFaults (True # fs) w))
           = Some (js ''An error occurred while joining.'')
      \<and> (\<not> fst (scanUsers (toLowerCase P) (currentUserId w) (trim (nameInput w)) (users (db w) room)) \<longrightarrow>
            ui (handleNameFormSubmit P (withFaults (False # True # fs) w)) = NameUI
            \<and> nameError (handleNameFormSubmit P (withFaults (False # True # fs) w))
                 = Some (js ''An error occurred while joining.''))
      \<and> (scanUsers (toLowerCase P) (currentUserId w) (trim (nameInput w)) (users (db w) room)
            = (False, None) \<longrightarrow>
            ui (handleNameFormSubmit P (withFaults (False # False # True # fs) w)) = NameUI
            \<and> nameError (handleNameFormSubmit P (withFaults (False # False # True # fs) w))
                 = Some (js ''An error occurred while joining.'')))
   \<and> (currentRoom w = Some room \<and> room \<noteq> [] \<longrightarrow>
      ui (handleDeleteChat (withFaults (True # fs) w)) = ChatUI
      \<and> roomError (handleDeleteChat (withFaults (True # fs) w)) = roomError w
      \<and> passwordError (handleDeleteChat (withFaults (True # fs) w)) = passwordError w
      \<and> nameError (handleDeleteChat (withFaults (True # fs) w)) = nameError w
      \<and> (messages (db w) room \<noteq> [] \<longrightarrow>
            ui (handleDeleteChat (withFaults (False # True # fs) w)) = ChatUI
            \<and> ui (handleDeleteChat (withFaults (False # False # True # fs) w)) = ChatUI))
   \<and> (ui w \<noteq> LoadingUI \<longrightarrow>
      ui (handleRoomFormSubmit P w) \<noteq> LoadingUI \<and> ui (handlePasswordVerifySubmit P w) \<noteq> LoadingUI
      \<and> ui (handleNameFormSubmit P w) \<noteq> LoadingUI \<and> ui (handleDeleteChat w) \<noteq> LoadingUI
      \<and> (hashchangeQueued w = 0 \<longrightarrow> ui (dispatchHashChange (handleHashChange w)) \<noteq> LoadingUI))"
proof (intro conjI impI; (elim conjE)?)
  assume "hash w \<noteq> []" "\<not> isNavigating w" "hashchangeQueued w = 0"
  note N = navigation_read_rejected [OF this]
  show "ui (dispatchHashChange (handleHashChange (withFaults (True # fs) w))) = RoomUI"
    and "roomError (dispatchHashChange (handleHashChange (withFaults (True # fs) w)))
           = Some (js ''An error occurred.'')"
    unfolding N by simp_all
next
  assume a: "normalizeRoomName (toLowerCase P) (roomInput w) \<noteq> []" "trim (roomPasswordInput w) \<noteq> []"
  note R = room_form_read_rejected [OF refl a]
  show "ui (handleRoomFormSubmit P (withFaults (True # fs) w)) = RoomUI"
    and "roomError (handleRoomFormSubmit P (withFaults (True # fs) w))
           = Some (js ''An error occurred. Please try again.'')"
    unfolding R by simp_all
  assume "rooms (db w) (normalizeRoomName (toLowerCase P) (roomInput w)) = None"
  note W = room_form_write_rejected [OF refl a this]
  show "ui (handleRoomFormSubmit P (withFaults (False # True # fs) w)) = RoomUI"
    and "roomError (handleRoomFormSubmit P (withFaults (False # True # fs) w))
                 = Some (js ''An error occurred. Please try again.'')"
    unfolding W by simp_all
next
  assume "currentRoom w = Some room" "room \<noteq> []" "trim (passwordVerifyInput w) \<noteq> []"
  note V = password_form_read_rejected [OF this]
  show "ui (handlePasswordVerifySubmit P (withFaults (True # fs) w)) = PasswordUI"
    and "passwordError (handlePasswordVerifySubmit P (withFaults (True # fs) w))
           = Some (js ''An error occurred.'')"
    unfolding V by simp_all
next
  assume c: "currentRoom w = Some room" "room \<noteq> []" "trim (nameInput w) \<noteq> []"
  note L = name_form_list_rejected [OF c]
  show "ui (handleNameFormSubmit P (withFaults (True # fs) w)) = NameUI"
    and "nameError (handleNameFormSubmit P (withFaults (True # fs) w))
           = Some (js ''An error occurred while joining.'')"
    unfolding L by simp_all
  {
    assume "\<not> fst (scanUsers (toLowerCase P) (currentUserId w) (trim (nameInput w)) (users (db w) room))"
    note S = name_form_second_rejected [OF c(1,2) refl c(3) this]
    show "ui (handleNameFormSubmit P (withFaults (False # True # fs) w)) = NameUI"
      and "nameError (handleNameFormSubmit P (withFaults (False # True # fs) w))
                 = Some (js ''An error occurred while joining.'')"
      by (rule S)+
  }
  {
    assume "scanUsers (toLowerCase P) (currentUserId w) (trim (nameInput w)) (users (db w) room)
            = (False, None)"
    note A = name_form_append_rejected [OF c(1,2) refl c(3) this]
    show "ui (handleNameFormSubmit P (withFaults (False # False # True # fs) w)) = NameUI"
      and "nameError (handleNameFormSubmit P (withFaults (False # False # True # fs) w))
                 = Some (js ''An error occurred while joining.'')"
      by (rule A)+
  }
next
  assume c: "currentRoom w = Some room" "room \<noteq> []"
  note D = delete_chat_list_rejected [OF c]
  show "ui (handleDeleteChat (withFaults (True # fs) w)) = ChatUI"
    and "roomError (handleDeleteChat (withFaults (True # fs) w)) = roomError w"
    and "passwordError (handleDeleteChat (withFaults (True # fs) w)) = passwordError w"
    and "nameError (handleDeleteChat (withFaults (True # fs) w)) = nameError w"
    unfolding D by simp_all
  assume m: "messages (db w) room \<noteq> []"
  show "ui (handleDeleteChat (withFaults (False # True # fs) w)) = ChatUI"
    and "ui (handleDeleteChat (withFaults (False # False # True # fs) w)) = ChatUI"
    unfolding delete_chat_commit_rejected [OF c m] delete_chat_append_rejected [OF c m] by simp_all
next
  assume u: "ui w \<noteq> LoadingUI"
  show "ui (handleRoomFormSubmit P w) \<noteq> LoadingUI" "ui (handlePasswordVerifySubmit P w) \<noteq> LoadingUI"
    "ui (handleNameFormSubmit P w) \<noteq> LoadingUI" "ui (handleDeleteChat w) \<noteq> LoadingUI"
    using u by (simp_all add: room_form_never_loading password_form_never_loading
        name_form_never_loading delete_chat_never_loading)
  assume "hashchangeQueued w = 0"
  then show "ui (dispatchHashChange (handleHashChange w)) \<noteq> LoadingUI"
    using u by (rule navigation_never_loading [rotated])
qed

theorem store_failures_return_to_a_screen_witness:
  "ui (dispatchHashChange (handleHashChange (withFaults [True] (startWorld teamStore (js ''u1'') (js ''team-x''))))) = RoomUI
   \<and> roomError (dispatchHashChange (handleHashChange (withFaults [True] (startWorld teamStore (js ''u1'') (js ''team-x'')))))
        = Some (js ''An error occurred.'')
   \<and> ui (handleRoomFormSubmit demoPlatform (withFaults [False, True]
           ((startWorld emptyStore (js ''u1'') [])\<lparr>roomInput := js ''Team-X'', roomPasswordInput := js ''hunter2''\<rparr>)))
        = RoomUI
   \<and> roomError (handleRoomFormSubmit demoPlatform (withFaults [False, True]
           ((startWorld emptyStore (js ''u1'') [])\<lparr>roomInput := js ''Team-X'', roomPasswordInput := js ''hunter2''\<rparr>)))
        = Some (js ''An error occurred. Please try again.'')
   \<and> ui (handlePasswordVerifySubmit demoPlatform (withFaults [True] (teamVisitor\<lparr>passwordVerifyInput := js ''hunter2''\<rparr>)))
        = PasswordUI
   \<and> passwordError (handlePasswordVerifySubmit demoPlatform (withFaults [True] (teamVisitor\<lparr>passwordVerifyInput := js ''hunter2''\<rparr>)))
        = Some (js ''An error occurred.'')
   \<and> ui (handleNameFormSubmit demoPlatform (withFaults [False, False, True] (atNameForm teamStore (js ''u1'') (js ''Alice''))))
        = NameUI
   \<and> nameError (handleNameFormSubmit demoPlatform (withFaults [False, False, True] (atNameForm teamStore (js ''u1'') (js ''Alice''))))
        = Some (js ''An error occurred while joining.'')
   \<and> ui (handleDeleteChat (withFaults [False, True] inChat)) = ChatUI
   \<and> ui (handleNameFormSubmit demoPlatform inChat) \<noteq> LoadingUI"
proof -
  let ?w1 = "startWorld teamStore (js ''u1'') (js ''team-x'')"
  let ?w2 = "(startWorld emptyStore (js ''u1'') [])\<lparr>roomInput := js ''Team-X'', roomPasswordInput := js ''hunter2''\<rparr>"
  let ?w3 = "teamVisitor\<lparr>passwordVerifyInput := js ''hunter2''\<rparr>"
  let ?w4 = "atNameForm teamStore (js ''u1'') (js ''Alice'')"
  have t: "trim (js ''hunter2'') = js ''hunter2''" "trim (js ''Alice'') = js ''Alice''"
    by (simp_all add: trim_def js_def isWhiteSpace_def)
  have n: "normalizeRoomName (toLowerCase demoPlatform) (js ''Team-X'') = js ''team-x''"
    by (simp add: normalizeRoomName_def stripNonSlug_def trim_def toLowerASCII_def js_def
        isWhiteSpace_def slugChar_def demoPlatform_def)
  have h1: "hash ?w1 \<noteq> [] \<and> \<not> isNavigating ?w1 \<and> hashchangeQueued ?w1 = 0"
    by (simp add: startWorld_def)
  have h2: "normalizeRoomName (toLowerCase demoPlatform) (roomInput ?w2) \<noteq> [] \<and> trim (roomPasswordInput ?w2) \<noteq> []"
    "rooms (db ?w2) (normalizeRoomName (toLowerCase demoPlatform) (roomInput ?w2)) = None"
    by (simp_all add: startWorld_def n t emptyStore_def)
  have v: "currentRoom teamVisitor = Some (js ''team-x'')"
    by (simp add: teamVisitor_def initializeAppLogic_existing [OF team_room] startWorld_def)
  have h3: "currentRoom ?w3 = Some (js ''team-x'') \<and> js ''team-x'' \<noteq> [] \<and> trim (passwordVerifyInput ?w3) \<noteq> []"
    by (simp add: v t)
  note a = atNameForm_existing [OF team_room]
  have ts: "users teamStore = (\<lambda>room. [])"
    by (simp add: teamStore_def emptyStore_def)
  have h4: "currentRoom ?w4 = Some (js ''team-x'') \<and> js ''team-x'' \<noteq> [] \<and> trim (nameInput ?w4) \<noteq> []"
    "scanUsers (toLowerCase demoPlatform) (currentUserId ?w4) (trim (nameInput ?w4)) (users (db ?w4) (js ''team-x''))
       = (False, None)"
    by (simp_all add: a startWorld_def t ts scanUsers_def)
  have h5: "currentRoom inChat = Some (js ''team-x'') \<and> js ''team-x'' \<noteq> []"
    "messages (db inChat) (js ''team-x'') \<noteq> []" "ui inChat \<noteq> LoadingUI"
    by (simp_all add: inChat_facts)
  have c1: "ui (dispatchHashChange (handleHashChange (withFaults [True] ?w1))) = RoomUI
      \<and> roomError (dispatchHashChange (handleHashChange (withFaults [True] ?w1))) = Some (js ''An error occurred.'')"
    using store_failures_return_to_a_screen [of ?w1 "[]"] h1 by blast
  have c2: "ui (handleRoomFormSubmit demoPlatform (withFaults [False, True] ?w2)) = RoomUI
      \<and> roomError (handleRoomFormSubmit demoPlatform (withFaults [False, True] ?w2))
           = Some (js ''An error occurred. Please try again.'')"
    using store_failures_return_to_a_screen [of ?w2 "[]" demoPlatform] h2 by blast
  have c3: "ui (handlePasswordVerifySubmit demoPlatform (withFaults [True] ?w3)) = PasswordUI
      \<and> passwordError (handlePasswordVerifySubmit demoPlatform (withFaults [True] ?w3)) = Some (js ''An error occurred.'')"
    using store_failures_return_to_a_screen [of ?w3 "[]" demoPlatform "js ''team-x''"] h3 by blast
  have c4: "ui (handleNameFormSubmit demoPlatform (withFaults [False, False, True] ?w4)) = NameUI
      \<and> nameError (handleNameFormSubmit demoPlatform (withFaults [False, False, True] ?w4))
           = Some (js ''An error occurred while joining.'')"
    using store_failures_return_to_a_screen [of ?w4 "[]" demoPlatform "js ''team-x''"] h4 by blast
  have c5: "ui (handleDeleteChat (withFaults [False, True] inChat)) = ChatUI
      \<and> ui (handleNameFormSubmit demoPlatform inChat) \<noteq> LoadingUI"
    using store_failures_return_to_a_screen [of inChat "[]" demoPlatform "js ''team-x''"] h5 by blast
  show ?thesis
    using c1 c2 c3 c4 c5 by blast
qed

text \<open>
  The claim as stated fails for the deletion of the history: its \<open>catch\<close> block writes to
  the console only. After a rejected deletion the chat is shown and every error slot of
  the page is still hidden.
\<close>

theorem delete_all_failure_shows_no_message:
  "ui (handleDeleteChat (withFaults [True] inChat)) = ChatUI
   \<and> roomError (handleDeleteChat (withFaults [True] inChat)) = None
   \<and> passwordError (handleDeleteChat (withFaults [True] inChat)) = None
   \<and> nameError (handleDeleteChat (withFaults [True] inChat)) = None
   \<and> messages (db (handleDeleteChat (withFaults [True] inChat))) = messages (db inChat)
   \<and> effects (handleDeleteChat (withFaults [True] inChat)) = effects inChat @ [ListMessages (js ''team-x'')]"
proof -
  have n: "js ''team-x'' \<noteq> []"
    by simp
  show ?thesis
    unfolding delete_chat_list_rejected [OF inChat_facts(1) n]
    by (simp add: inChat_facts)
qed

end
